theory Spec2Isabelle
  imports Main "HOL-Library.Sublist" "HOL-Library.Multiset" "HOL-Library.AList"
begin

section \<open>rreplay.py: exceptions, values and the world it runs in\<close>

text \<open>
  The exceptions the program can meet. \<open>KeyboardInterrupt\<close> and \<open>SystemExit\<close> are
  not subclasses of Python's \<open>Exception\<close>; all the others are.
\<close>

datatype exn =
    KeyboardInterrupt
  | SystemExit int
  | IOError
  | OSError
  | IndexError
  | TypeError
  | ValueError
  | NoSectionError
  | NoOptionError
  | ParsingError

fun is_Exception :: "exn \<Rightarrow> bool" where
  "is_Exception KeyboardInterrupt = False"
| "is_Exception (SystemExit n) = False"
| "is_Exception x = True"

text \<open>
  A child process as \<open>subprocess.Popen\<close> returns it: \<open>child\<close> numbers the children of
  this run in spawn order, \<open>returncode\<close> is the status \<open>wait()\<close> will return
  (\<open>None\<close>: the child never exits, \<open>wait()\<close> blocks forever).
\<close>

record popen =
  child :: nat
  returncode :: "int option"

text \<open>
  Python values as far as the JSON state file needs them: what \<open>json.load\<close> can
  return, and \<open>PObject\<close> for a Python object that \<open>json.dump\<close> cannot serialise
  (the \<open>Popen\<close> handle). JSON floats are left out.
\<close>

datatype pyval =
    PNone
  | PBool bool
  | PNum int
  | PStr string
  | PList "pyval list"
  | PDict "(string \<times> pyval) list"
  | PObject

text \<open>
  A subject: the dict \<open>s\<close> that \<open>get_configuration\<close> builds. The keys that the code
  sets only sometimes (\<open>mmap_backing_files\<close>, \<open>checker\<close>, \<open>mutator\<close>, \<open>pid\<close>,
  \<open>handle\<close>) are options; all values are the strings the configuration and the pipe
  deliver.
\<close>

record subject =
  event :: string
  rec_pid :: string
  trace_file :: string
  trace_start :: string
  trace_end :: string
  injected_state_file :: string
  other_procs :: "string list"
  mmap_backing_files :: "string option"
  checker :: "string option"
  mutator :: "string option"
  pid :: "string option"
  handle :: "popen option"

text \<open>
  What the program does to the outside, in the order it does it: console prints, file
  writes and unlinks, spawned commands, waits on a child, and kill signals.
\<close>

datatype effect =
    Print string
  | PrintNoHandle subject
  | Write string string
  | Unlink string
  | Spawn "string list"
  | Wait popen
  | Kill int

datatype node = File string | Dir

text \<open>
  The state the program reads and changes: the file system (a named pipe is a \<open>File\<close>
  holding the bytes its writer delivers before closing), the module global
  \<open>rrdump_pipe\<close> (\<open>None\<close> until opened, then the bytes not yet read), the effects so
  far and the number of children spawned.
\<close>

record world =
  fs :: "string \<rightharpoonup> node"
  rrdump_pipe :: "string option"
  out :: "effect list"
  spawned :: nat

text \<open>
  How a command behaves once spawned: its exit status, what it writes to its standard
  output, and the bytes it sends through the named pipe (\<open>None\<close>: it never creates the
  pipe).
\<close>

record behaviour =
  exit_status :: "int option"
  stdout_text :: string
  pipe_bytes :: "string option"

type_synonym config = "(string \<times> (string \<times> string) list) list"

text \<open>
  What is outside \<open>rreplay.py\<close>. The module \<open>consts\<close> is not part of the source at
  hand, so its three constants are parameters. \<open>alive_after\<close> stands for
  \<open>syscallreplay.util.process_is_alive\<close> under the operating system: the number of
  polls that answer False before the pid is seen alive (\<open>None\<close>: never alive).
  \<open>ini_parse\<close>, \<open>json_load\<close> and \<open>json_text\<close> are the standard library's
  \<open>ConfigParser\<close> and \<open>json\<close> on file texts: the sections of a configuration text
  in file order with their options after interpolation; the document a text parses to
  (\<open>None\<close>: \<open>ValueError\<close>); and the text \<open>json.dump\<close> writes for a value (for
  a value it cannot serialise, the chunks written before it raises). \<open>os_popen\<close> is the
  command table (\<open>None\<close>: no such executable, \<open>OSError\<close>), and \<open>kill_fails\<close>
  says for which pids \<open>os.kill\<close> raises \<open>OSError\<close>.
\<close>

record env =
  PROC_FILE :: string
  RR_PIPE :: string
  DEFAULT_CONFIG_PATH :: string
  alive_after :: "string \<Rightarrow> nat option"
  ini_parse :: "string \<Rightarrow> exn + config"
  json_load :: "string \<Rightarrow> pyval option"
  json_text :: "pyval \<Rightarrow> string"
  os_popen :: "string list \<Rightarrow> behaviour option"
  kill_fails :: "int \<Rightarrow> bool"

section \<open>Python primitives\<close>

text \<open>An exception raised in the first step skips the second.\<close>

definition ebind :: "exn + 'a \<Rightarrow> ('a \<Rightarrow> exn + 'b) \<Rightarrow> exn + 'b" where
  "ebind m f = (case m of Inl x \<Rightarrow> Inl x | Inr v \<Rightarrow> f v)"

text \<open>
  \<open>xs[i]\<close> on a list: an integer index counts from the end when negative and raises
  \<open>IndexError\<close> out of range (a bool is an integer in Python); any other index raises
  \<open>TypeError\<close>.
\<close>

definition list_getitem :: "'a list \<Rightarrow> pyval \<Rightarrow> exn + 'a" where
  "list_getitem xs i =
     (case (case i of PNum n \<Rightarrow> Some n | PBool b \<Rightarrow> Some (if b then 1 else 0) | _ \<Rightarrow> None) of
        None \<Rightarrow> Inl TypeError
      | Some n \<Rightarrow>
          (let len = int (length xs); j = (if n < 0 then len + n else n)
           in if 0 \<le> j \<and> j < len then Inr (xs ! nat j) else Inl IndexError))"

text \<open>\<open>d[k] = v\<close> with a string key: only a dict takes it.\<close>

definition dict_setitem :: "pyval \<Rightarrow> string \<Rightarrow> pyval \<Rightarrow> exn + pyval" where
  "dict_setitem d k v =
     (case d of PDict kvs \<Rightarrow> Inr (PDict (AList.update k v kvs)) | _ \<Rightarrow> Inl TypeError)"

text \<open>\<open>str.split(sep)\<close> with a one-character separator: every occurrence splits.\<close>

fun split_on :: "char \<Rightarrow> string \<Rightarrow> string list" where
  "split_on c [] = [] # []"
| "split_on c (x # xs) =
     (if x = c then [] # split_on c xs
      else (case split_on c xs of [] \<Rightarrow> [x] # [] | p # ps \<Rightarrow> (x # p) # ps))"

definition is_space :: "char \<Rightarrow> bool" where
  "is_space c = (c = CHR '' '' \<or> c = CHR 0x09 \<or> c = CHR 0x0A \<or> c = CHR 0x0B
                 \<or> c = CHR 0x0C \<or> c = CHR 0x0D)"

definition strip :: "string \<Rightarrow> string" where
  "strip s = rev (dropWhile is_space (rev (dropWhile is_space s)))"

text \<open>
  \<open>int(s)\<close> on a string, base ten: surrounding white space, an optional sign and at
  least one decimal digit; anything else raises \<open>ValueError\<close> (here \<open>None\<close>).
\<close>

definition digit_val :: "char \<Rightarrow> int option" where
  "digit_val c = map_of (zip ''0123456789'' [0, 1, 2, 3, 4, 5, 6, 7, 8, 9]) c"

definition digits_val :: "string \<Rightarrow> int option" where
  "digits_val ds =
     (if ds = [] then None
      else map_option (foldl (\<lambda>a d. 10 * a + d) 0) (those (map digit_val ds)))"

definition py_int :: "string \<Rightarrow> int option" where
  "py_int s =
     (case strip s of
        [] \<Rightarrow> None
      | c # r \<Rightarrow>
          (if c = CHR ''-'' then map_option uminus (digits_val r)
           else if c = CHR ''+'' then digits_val r
           else digits_val (c # r)))"

section \<open>File system and process primitives\<close>

definition path_exists :: "string \<Rightarrow> world \<Rightarrow> bool" where
  "path_exists p w = (fs w p \<noteq> None)"

text \<open>\<open>os.unlink\<close>: removes a file; raises \<open>OSError\<close> on a missing path or a directory.\<close>

definition unlink :: "string \<Rightarrow> world \<Rightarrow> (exn + unit) \<times> world" where
  "unlink p w =
     (case fs w p of
        Some (File t) \<Rightarrow> (Inr (), w\<lparr>fs := (fs w)(p := None), out := out w @ [Unlink p]\<rparr>)
      | Some Dir \<Rightarrow> (Inl OSError, w)
      | None \<Rightarrow> (Inl OSError, w))"

text \<open>\<open>open(p, 'r')\<close> followed by reading the whole file.\<close>

definition read_file :: "string \<Rightarrow> world \<Rightarrow> exn + string" where
  "read_file p w = (case fs w p of Some (File t) \<Rightarrow> Inr t | _ \<Rightarrow> Inl IOError)"

text \<open>
  \<open>open(p, 'w')\<close> creates the file or truncates it; a directory raises \<open>IOError\<close>.
  (Paths are one flat name space: a missing parent directory is not modelled.)
\<close>

definition open_w :: "string \<Rightarrow> world \<Rightarrow> (exn + unit) \<times> world" where
  "open_w p w =
     (case fs w p of
        Some Dir \<Rightarrow> (Inl IOError, w)
      | _ \<Rightarrow> (Inr (), w\<lparr>fs := (fs w)(p \<mapsto> File [])\<rparr>))"

text \<open>Text written through an open file, in place once the file is closed.\<close>

definition file_write :: "string \<Rightarrow> string \<Rightarrow> world \<Rightarrow> world" where
  "file_write p t w =
     w\<lparr>fs := (fs w)(p \<mapsto> File ((case fs w p of Some (File t0) \<Rightarrow> t0 | _ \<Rightarrow> []) @ t)),
       out := out w @ [Write p t]\<rparr>"

text \<open>
  \<open>subprocess.Popen(argv, stdout=f, stderr=f)\<close>. The child runs on its own; what it
  does to the file system (its output into \<open>f\<close>, the named pipe it creates) is placed
  at the spawn, since the model has no clock.
\<close>

definition Popen :: "env \<Rightarrow> string list \<Rightarrow> string option \<Rightarrow> world \<Rightarrow> (exn + popen) \<times> world" where
  "Popen e argv f w =
     (case os_popen e argv of
        None \<Rightarrow> (Inl OSError, w)
      | Some b \<Rightarrow>
          (let w1 = w\<lparr>out := out w @ [Spawn argv], spawned := Suc (spawned w)\<rparr>;
               w2 = (case f of
                       None \<Rightarrow> w1
                     | Some p \<Rightarrow>
                         w1\<lparr>fs := (fs w1)(p \<mapsto>
                               File ((case fs w1 p of Some (File t0) \<Rightarrow> t0 | _ \<Rightarrow> [])
                                     @ stdout_text b))\<rparr>);
               w3 = (case pipe_bytes b of
                       None \<Rightarrow> w2
                     | Some bs \<Rightarrow> w2\<lparr>fs := (fs w2)(RR_PIPE e \<mapsto> File bs)\<rparr>)
           in (Inr \<lparr>child = spawned w, returncode = exit_status b\<rparr>, w3)))"

text \<open>\<open>os.kill(pid, signal.SIGKILL)\<close>.\<close>

definition os_kill :: "env \<Rightarrow> int \<Rightarrow> world \<Rightarrow> (exn + unit) \<times> world" where
  "os_kill e n w =
     (if kill_fails e n then (Inl OSError, w) else (Inr (), w\<lparr>out := out w @ [Kill n]\<rparr>))"

section \<open>get\_message\<close>

text \<open>\<open>rrdump_pipe.read(1)\<close>: the next byte, or the empty string at end of input.\<close>

definition read1 :: "string \<Rightarrow> string \<times> string" where
  "read1 bs = (take 1 bs, drop 1 bs)"

text \<open>The \<open>while True\<close> loop; \<open>None\<close> when it never returns.\<close>

partial_function (option) read_loop :: "string \<Rightarrow> string \<Rightarrow> (string \<times> string) option" where
  "read_loop buf bs =
     (case read1 bs of
        (b, rest) \<Rightarrow>
          (let buf1 = buf @ b
           in if buf1 = [] then Some ([], rest)
              else if last buf1 = CHR 0x0A then Some (buf1, rest)
              else read_loop buf1 rest))"

text \<open>
  The spin on \<open>os.path.exists\<close> ends only if the path exists: nothing in the program
  creates it meanwhile (the replay engine's pipe is placed at its spawn).
\<close>

definition get_message :: "string \<Rightarrow> world \<Rightarrow> ((exn + string) \<times> world) option" where
  "get_message pipe_name w =
     (case (case rrdump_pipe w of
              Some bs \<Rightarrow> Some (Inr bs, w)
            | None \<Rightarrow>
                (if \<not> path_exists pipe_name w then None
                 else (case read_file pipe_name w of
                         Inl x \<Rightarrow> Some (Inl x, w)
                       | Inr t \<Rightarrow> Some (Inr t, w\<lparr>rrdump_pipe := Some t\<rparr>)))) of
        None \<Rightarrow> None
      | Some (Inl x, w1) \<Rightarrow> Some (Inl x, w1)
      | Some (Inr bs, w1) \<Rightarrow>
          (case read_loop [] bs of
             None \<Rightarrow> None
           | Some (buf, rest) \<Rightarrow> Some (Inr buf, w1\<lparr>rrdump_pipe := Some rest\<rparr>)))"

section \<open>cleanup\<close>

definition cleanup :: "env \<Rightarrow> world \<Rightarrow> (exn + unit) \<times> world" where
  "cleanup e w =
     (case (if path_exists (PROC_FILE e) w then unlink (PROC_FILE e) w else (Inr (), w)) of
        (Inl x, w1) \<Rightarrow> (Inl x, w1)
      | (Inr u, w1) \<Rightarrow>
          (if path_exists (RR_PIPE e) w1 then unlink (RR_PIPE e) w1 else (Inr (), w1)))"

section \<open>get\_configuration\<close>

text \<open>
  \<open>cfg.get(section, option)\<close> on the parsed configuration (no DEFAULT section).
\<close>

definition cfg_get :: "config \<Rightarrow> string \<Rightarrow> string \<Rightarrow> exn + string" where
  "cfg_get cfg sec opt =
     (case map_of cfg sec of
        None \<Rightarrow> Inl NoSectionError
      | Some opts \<Rightarrow> (case map_of opts opt of None \<Rightarrow> Inl NoOptionError | Some v \<Rightarrow> Inr v))"

text \<open>\<open>try: ... cfg.get(i, opt) except ConfigParser.NoOptionError: pass\<close>\<close>

definition cfg_get_optional :: "config \<Rightarrow> string \<Rightarrow> string \<Rightarrow> exn + string option" where
  "cfg_get_optional cfg sec opt =
     (case cfg_get cfg sec opt of
        Inl NoOptionError \<Rightarrow> Inr None
      | Inl x \<Rightarrow> Inl x
      | Inr v \<Rightarrow> Inr (Some v))"

text \<open>The body of the loop over the sections: one subject.\<close>

definition parse_subject :: "config \<Rightarrow> string \<Rightarrow> exn + subject" where
  "parse_subject cfg i =
     ebind (cfg_get cfg i ''event'') (\<lambda>ev.
     ebind (cfg_get cfg i ''pid'') (\<lambda>rp.
     ebind (cfg_get cfg i ''trace_file'') (\<lambda>tf.
     ebind (cfg_get cfg i ''trace_start'') (\<lambda>ts.
     ebind (cfg_get cfg i ''trace_end'') (\<lambda>te.
     ebind (cfg_get cfg i ''event'') (\<lambda>ev2.
     ebind (cfg_get_optional cfg i ''mmap_backing_files'') (\<lambda>mm.
     ebind (cfg_get_optional cfg i ''checker'') (\<lambda>ch.
     ebind (cfg_get_optional cfg i ''mutator'') (\<lambda>mu.
       Inr \<lparr>event = ev, rec_pid = rp, trace_file = tf, trace_start = ts, trace_end = te,
            injected_state_file = ev2 @ ''_state.json'', other_procs = [],
            mmap_backing_files = mm, checker = ch, mutator = mu,
            pid = None, handle = None\<rparr>)))))))))"

fun parse_subjects :: "config \<Rightarrow> string list \<Rightarrow> exn + subject list" where
  "parse_subjects cfg [] = Inr []"
| "parse_subjects cfg (i # sections) =
     ebind (parse_subject cfg i) (\<lambda>s.
     ebind (parse_subjects cfg sections) (\<lambda>subjects. Inr (s # subjects)))"

text \<open>
  \<open>subjects.sort(key=_sort_by_event)\<close>: the keys \<open>int(sub['event'])\<close> are computed
  for every subject first (\<open>ValueError\<close> if one is not a number), then the list is
  sorted by them, stably.
\<close>

definition sort_by_event :: "subject list \<Rightarrow> exn + subject list" where
  "sort_by_event subjects =
     (case those (map (\<lambda>sub. py_int (event sub)) subjects) of
        None \<Rightarrow> Inl ValueError
      | Some keys \<Rightarrow> Inr (map snd (sort_key fst (zip keys subjects))))"

definition get_configuration ::
  "env \<Rightarrow> string \<Rightarrow> world \<Rightarrow> (exn + string \<times> subject list) \<times> world" where
  "get_configuration e ini_path w =
     (case read_file ini_path w of
        Inl x \<Rightarrow> (Inl IOError, w)
      | Inr text \<Rightarrow>
     (case ini_parse e text of
        Inl x \<Rightarrow> (Inl x, w)
      | Inr cfg \<Rightarrow>
     (let sections = map fst cfg in
      case list_getitem sections (PNum 0) of
        Inl x \<Rightarrow> (Inl x, w)
      | Inr rr_dir_section \<Rightarrow>
     (case cfg_get cfg rr_dir_section ''rr_dir'' of
        Inl x \<Rightarrow> (Inl x, w)
      | Inr rr_dir \<Rightarrow>
     (let sections1 = drop 1 sections in
      if length sections1 = 0
      then (Inl (SystemExit 0),
            w\<lparr>out := out w @
                 [Print ''Configuration does not contain any simulation opportunities.'']\<rparr>)
      else (case ebind (parse_subjects cfg sections1) sort_by_event of
              Inl x \<Rightarrow> (Inl x, w)
            | Inr subjects \<Rightarrow> (Inr (rr_dir, subjects), w)))))))"

section \<open>execute\_rr\<close>

definition execute_rr :: "env \<Rightarrow> string \<Rightarrow> subject list \<Rightarrow> world \<Rightarrow> (exn + unit) \<times> world" where
  "execute_rr e rr_dir subjects w =
     (let events_str = concat (map (\<lambda>i. rec_pid i @ '':'' @ event i @ '','') subjects);
          command = [''rr'', ''replay'', ''-a'', ''-n'', events_str, rr_dir]
      in case open_w (PROC_FILE e) w of
           (Inl x, w1) \<Rightarrow> (Inl x, w1)
         | (Inr u, w1) \<Rightarrow>
             (case Popen e command (Some (PROC_FILE e)) w1 of
                (Inl x, w2) \<Rightarrow> (Inl x, w2)
              | (Inr h, w2) \<Rightarrow> (Inr (), w2)))"

section \<open>process\_messages\<close>

text \<open>The subject dict as \<open>json.dump\<close> meets it under the key \<open>config\<close>.\<close>

definition opt_item :: "string \<Rightarrow> string option \<Rightarrow> (string \<times> pyval) list" where
  "opt_item k v = (case v of None \<Rightarrow> [] | Some x \<Rightarrow> [(k, PStr x)])"

definition subject_dict :: "subject \<Rightarrow> pyval" where
  "subject_dict s =
     PDict ([(''event'', PStr (event s)), (''rec_pid'', PStr (rec_pid s)),
             (''trace_file'', PStr (trace_file s)), (''trace_start'', PStr (trace_start s)),
             (''trace_end'', PStr (trace_end s)),
             (''injected_state_file'', PStr (injected_state_file s)),
             (''other_procs'', PList (map PStr (other_procs s)))]
            @ opt_item ''mmap_backing_files'' (mmap_backing_files s)
            @ opt_item ''checker'' (checker s)
            @ opt_item ''mutator'' (mutator s)
            @ opt_item ''pid'' (pid s)
            @ (case handle s of None \<Rightarrow> [] | Some h \<Rightarrow> [(''handle'', PObject)]))"

text \<open>Whether \<open>json.dump\<close> can write the value: no Python object inside.\<close>

fun serializable :: "pyval \<Rightarrow> bool" where
  "serializable PObject = False"
| "serializable (PList xs) = list_all serializable xs"
| "serializable (PDict kvs) = list_all (\<lambda>kv. serializable (snd kv)) kvs"
| "serializable v = True"

text \<open>
  The busy wait \<open>while not util.process_is_alive(pid): print('waiting...')\<close>;
  \<open>None\<close> when the process never shows up.
\<close>

definition wait_until_alive :: "env \<Rightarrow> string \<Rightarrow> world \<Rightarrow> world option" where
  "wait_until_alive e p w =
     (case alive_after e p of
        None \<Rightarrow> None
      | Some n \<Rightarrow> Some (w\<lparr>out := out w @ replicate n (Print ''waiting...'')\<rparr>))"

text \<open>
  \<open>s = operating[0]\<close> is the first dict of \<open>subjects\<close> with the event, not a copy:
  what the branches assign to \<open>s\<close> shows in \<open>subjects\<close> at that place.
\<close>

fun update_first :: "('a \<Rightarrow> bool) \<Rightarrow> 'a \<Rightarrow> 'a list \<Rightarrow> 'a list" where
  "update_first P y [] = []"
| "update_first P y (x # xs) = (if P x then y # xs else x # update_first P y xs)"

text \<open>The \<open>INJECT\<close> branch on the subject \<open>s\<close>.\<close>

definition inject_subject :: "env \<Rightarrow> string \<Rightarrow> subject \<Rightarrow> world \<Rightarrow> (exn + subject) \<times> world" where
  "inject_subject e p s w =
     (case read_file (injected_state_file s) w of
        Inl x \<Rightarrow> (Inl x, w)
      | Inr text \<Rightarrow>
     (case json_load e text of
        None \<Rightarrow> (Inl ValueError, w)
      | Some tmp \<Rightarrow>
     (let s1 = s\<lparr>pid := Some p\<rparr> in
      case dict_setitem tmp ''config'' (subject_dict s1) of
        Inl x \<Rightarrow> (Inl x, w)
      | Inr tmp1 \<Rightarrow>
     (case open_w (injected_state_file s1) w of
        (Inl x, w1) \<Rightarrow> (Inl x, w1)
      | (Inr u, w1) \<Rightarrow>
     (let w2 = file_write (injected_state_file s1) (json_text e tmp1) w1 in
      if \<not> serializable tmp1 then (Inl TypeError, w2)
      else (case Popen e [''inject'', ''--verbosity=40'', injected_state_file s1] None w2 of
              (Inl x, w3) \<Rightarrow> (Inl x, w3)
            | (Inr h, w3) \<Rightarrow> (Inr (s1\<lparr>handle := Some h\<rparr>), w3)))))))"

text \<open>One turn of the \<open>while message != ''\<close> loop, up to the next \<open>get_message\<close>.\<close>

definition handle_message ::
  "env \<Rightarrow> string \<Rightarrow> subject list \<Rightarrow> world \<Rightarrow> ((exn + subject list) \<times> world) option" where
  "handle_message e message subjects w =
     (let parts = split_on CHR '' '' message in
      case list_getitem parts (PNum 0) of
        Inl x \<Rightarrow> Some (Inl x, w)
      | Inr part0 \<Rightarrow>
     (let inject = butlast (strip part0) in
      case list_getitem parts (PNum 2) of
        Inl x \<Rightarrow> Some (Inl x, w)
      | Inr ev \<Rightarrow>
     (case list_getitem parts (PNum 4) of
        Inl x \<Rightarrow> Some (Inl x, w)
      | Inr p \<Rightarrow>
     (case wait_until_alive e p w of
        None \<Rightarrow> None
      | Some w1 \<Rightarrow>
     (let operating = filter (\<lambda>x. event x = ev) subjects in
      case list_getitem operating (PNum 0) of
        Inl x \<Rightarrow> Some (Inl x, w1)
      | Inr s \<Rightarrow>
          (if inject = ''INJECT''
           then (case inject_subject e p s w1 of
                   (Inl x, w2) \<Rightarrow> Some (Inl x, w2)
                 | (Inr s1, w2) \<Rightarrow>
                     Some (Inr (update_first (\<lambda>x. event x = ev) s1 subjects), w2))
           else if inject = ''DONT_INJECT''
           then Some (Inr (update_first (\<lambda>x. event x = ev)
                             (s\<lparr>other_procs := other_procs s @ [p]\<rparr>) subjects), w1)
           else Some (Inr subjects, w1)))))))"

partial_function (option) message_loop ::
  "env \<Rightarrow> string \<Rightarrow> subject list \<Rightarrow> world \<Rightarrow> ((exn + subject list) \<times> world) option" where
  "message_loop e message subjects w =
     (if message = [] then Some (Inr subjects, w)
      else (case handle_message e message subjects w of
              None \<Rightarrow> None
            | Some (Inl x, w1) \<Rightarrow> Some (Inl x, w1)
            | Some (Inr subjects1, w1) \<Rightarrow>
                (case get_message (RR_PIPE e) w1 of
                   None \<Rightarrow> None
                 | Some (Inl x, w2) \<Rightarrow> Some (Inl x, w2)
                 | Some (Inr message1, w2) \<Rightarrow> message_loop e message1 subjects1 w2)))"

definition process_messages ::
  "env \<Rightarrow> subject list \<Rightarrow> world \<Rightarrow> ((exn + subject list) \<times> world) option" where
  "process_messages e subjects w =
     (case get_message (RR_PIPE e) w of
        None \<Rightarrow> None
      | Some (Inl x, w1) \<Rightarrow> Some (Inl x, w1)
      | Some (Inr message, w1) \<Rightarrow> message_loop e message subjects w1)"

section \<open>wait\_on\_handles\<close>

text \<open>
  The loop \<open>for i in s['other_procs']\<close>. The argument of \<open>logger.debug\<close>,
  \<open>s['other_procs'][i]\<close>, is evaluated first: it indexes the list with its own
  element, a pid string. An \<open>OSError\<close> of \<open>os.kill\<close> is passed over.
\<close>

fun kill_other_procs :: "env \<Rightarrow> string list \<Rightarrow> string list \<Rightarrow> world \<Rightarrow> (exn + unit) \<times> world" where
  "kill_other_procs e procs [] w = (Inr (), w)"
| "kill_other_procs e procs (i # rest) w =
     (case list_getitem procs (PStr i) of
        Inl x \<Rightarrow> (Inl x, w)
      | Inr logged \<Rightarrow>
          (case py_int i of
             None \<Rightarrow> (Inl ValueError, w)
           | Some n \<Rightarrow>
               (case os_kill e n w of
                  (Inl OSError, w1) \<Rightarrow> kill_other_procs e procs rest w1
                | (Inl x, w1) \<Rightarrow> (Inl x, w1)
                | (Inr u, w1) \<Rightarrow> kill_other_procs e procs rest w1)))"

fun wait_on_handles :: "env \<Rightarrow> subject list \<Rightarrow> world \<Rightarrow> ((exn + unit) \<times> world) option" where
  "wait_on_handles e [] w = Some (Inr (), w)"
| "wait_on_handles e (s # subjects) w =
     (case (case handle s of
              Some h \<Rightarrow>
                (case returncode h of
                   None \<Rightarrow> None
                 | Some r \<Rightarrow> Some (r, w\<lparr>out := out w @ [Wait h]\<rparr>))
            | None \<Rightarrow> Some (- 1, w\<lparr>out := out w @ [PrintNoHandle s]\<rparr>)) of
        None \<Rightarrow> None
      | Some (ret, w1) \<Rightarrow>
          (case kill_other_procs e (other_procs s) (other_procs s) w1 of
             (Inl x, w2) \<Rightarrow> Some (Inl x, w2)
           | (Inr u, w2) \<Rightarrow>
               wait_on_handles e subjects
                 (if ret \<noteq> 0
                  then w2\<lparr>out := out w2 @
                         [Print (''Injector for event:rec_pid '' @ event s @ '':'' @ rec_pid s
                                 @ '' failed'')]\<rparr>
                  else w2)))"

section \<open>main and the top level\<close>

text \<open>
  \<open>KeyboardInterrupt\<close> is raised by a signal from outside, at any moment. The
  parameter \<open>sigint\<close> names the step of \<open>main\<close> before which the signal arrives
  (\<open>None\<close>: no signal); signals inside a step are not modelled.
\<close>

datatype phase = PRECLEANUP | LOAD_CONFIG | LAUNCH_REPLAY | DISPATCH | SUPERVISE | POSTCLEANUP

definition main ::
  "env \<Rightarrow> phase option \<Rightarrow> string \<Rightarrow> world \<Rightarrow> ((exn + unit) \<times> world) option" where
  "main e sigint testname w =
     (if sigint = Some PRECLEANUP then Some (Inl KeyboardInterrupt, w)
      else case cleanup e w of
        (Inl x, w1) \<Rightarrow> Some (Inl x, w1)
      | (Inr u, w1) \<Rightarrow>
     (let test_dir = DEFAULT_CONFIG_PATH e @ testname in
      if \<not> path_exists test_dir w1
      then Some (Inl (SystemExit 1),
                 w1\<lparr>out := out w1 @
                    [Print (''Test '' @ testname
                            @ '' does not exist. Create before attempting to configure!'')]\<rparr>)
      else if sigint = Some LOAD_CONFIG then Some (Inl KeyboardInterrupt, w1)
      else case get_configuration e (test_dir @ ''/'' @ ''config.ini'') w1 of
        (Inl x, w2) \<Rightarrow> Some (Inl x, w2)
      | (Inr (rr_dir, subjects), w2) \<Rightarrow>
     (if sigint = Some LAUNCH_REPLAY then Some (Inl KeyboardInterrupt, w2)
      else case execute_rr e rr_dir subjects w2 of
        (Inl x, w3) \<Rightarrow> Some (Inl x, w3)
      | (Inr u, w3) \<Rightarrow>
     (if sigint = Some DISPATCH then Some (Inl KeyboardInterrupt, w3)
      else case process_messages e subjects w3 of
        None \<Rightarrow> None
      | Some (Inl x, w4) \<Rightarrow> Some (Inl x, w4)
      | Some (Inr subjects1, w4) \<Rightarrow>
     (if sigint = Some SUPERVISE then Some (Inl KeyboardInterrupt, w4)
      else case wait_on_handles e subjects1 w4 of
        None \<Rightarrow> None
      | Some (Inl x, w5) \<Rightarrow> Some (Inl x, w5)
      | Some (Inr u, w5) \<Rightarrow>
     (if sigint = Some POSTCLEANUP then Some (Inl KeyboardInterrupt, w5)
      else Some (cleanup e w5)))))))"

text \<open>
  How the process ends: \<open>Exited n\<close> through \<open>sys.exit(n)\<close>, or \<open>Crashed x\<close> when the
  exception \<open>x\<close> leaves the \<open>__main__\<close> block uncaught (the interpreter prints the
  traceback and the exit status is 1).
\<close>

datatype ending = Exited int | Crashed exn

fun exit_status_of :: "ending \<Rightarrow> int" where
  "exit_status_of (Exited n) = n"
| "exit_status_of (Crashed x) = 1"

text \<open>The \<open>except KeyboardInterrupt\<close> block.\<close>

definition on_interrupt :: "env \<Rightarrow> world \<Rightarrow> ending \<times> world" where
  "on_interrupt e w =
     (case read_file ''proc.out'' w of
        Inl x \<Rightarrow> (Crashed x, w)
      | Inr text \<Rightarrow>
          (case cleanup e (w\<lparr>out := out w @ [Print text]\<rparr>) of
             (Inl x, w1) \<Rightarrow> (Crashed x, w1)
           | (Inr u, w1) \<Rightarrow> (Exited 0, w1)))"

text \<open>The \<open>except Exception\<close> block.\<close>

definition on_exception :: "env \<Rightarrow> world \<Rightarrow> ending \<times> world" where
  "on_exception e w =
     (case cleanup e w of
        (Inl x, w1) \<Rightarrow> (Crashed x, w1)
      | (Inr u, w1) \<Rightarrow> (Exited 1, w1))"

text \<open>The \<open>__main__\<close> block; \<open>None\<close> when \<open>main\<close> never returns.\<close>

definition run :: "env \<Rightarrow> phase option \<Rightarrow> string \<Rightarrow> world \<Rightarrow> (ending \<times> world) option" where
  "run e sigint testname w =
     (case main e sigint testname w of
        None \<Rightarrow> None
      | Some (Inr u, w1) \<Rightarrow> Some (Exited 0, w1)
      | Some (Inl KeyboardInterrupt, w1) \<Rightarrow> Some (on_interrupt e w1)
      | Some (Inl (SystemExit n), w1) \<Rightarrow> Some (Exited n, w1)
      | Some (Inl x, w1) \<Rightarrow> Some (on_exception e w1))"

section \<open>Observing a run\<close>



text \<open>\<open>d[k]\<close> read from a document: the value under a key of a dict.\<close>

definition dict_getitem :: "pyval \<Rightarrow> string \<Rightarrow> pyval option" where
  "dict_getitem d k = (case d of PDict kvs \<Rightarrow> map_of kvs k | _ \<Rightarrow> None)"

text \<open>
  The state of the loop after \<open>n\<close> complete turns (a turn handles the message and
  reads the next one), when every one of them ends without an exception.
\<close>

fun loop_after ::
  "env \<Rightarrow> nat \<Rightarrow> string \<Rightarrow> subject list \<Rightarrow> world \<Rightarrow> (string \<times> subject list \<times> world) option" where
  "loop_after e 0 message subjects w = Some (message, subjects, w)"
| "loop_after e (Suc n) message subjects w =
     (if message = [] then None
      else (case handle_message e message subjects w of
              Some (Inr subjects1, w1) \<Rightarrow>
                (case get_message (RR_PIPE e) w1 of
                   Some (Inr message1, w2) \<Rightarrow> loop_after e n message1 subjects1 w2
                 | _ \<Rightarrow> None)
            | _ \<Rightarrow> None))"

section \<open>A sample test directory\<close>

text \<open>
  A configuration with the replay directory and two subjects, the later event first; an
  environment whose replay engine sends the given bytes through the pipe; and a file
  system holding the test directories \<open>tests/demo\<close> (that configuration) and
  \<open>tests/empty\<close> (the replay directory only) with the two state files.
\<close>

definition demo_config :: config where
  "demo_config =
     [(''rr_recording'', [(''rr_dir'', ''trace/'')]),
      (''request_handling_process7'',
         [(''event'', ''7''), (''pid'', ''201''), (''trace_file'', ''t.strace''),
          (''trace_start'', ''0''), (''trace_end'', ''9'')]),
      (''request_handling_process3'',
         [(''event'', ''3''), (''pid'', ''200''), (''trace_file'', ''t.strace''),
          (''trace_start'', ''0''), (''trace_end'', ''5''), (''checker'', ''chk'')])]"

text \<open>
  The sample's \<open>json.dump\<close>: the default layout (\<open>", "\<close> between items,
  \<open>": "\<close> after a key), the keys of a dict in the order of the list, strings between
  double quotes as they are (the sample's strings need no escapes).
\<close>

fun show_nat :: "nat \<Rightarrow> string" where
  "show_nat n =
     (if n < 10 then [''0123456789'' ! n]
      else show_nat (n div 10) @ [''0123456789'' ! (n mod 10)])"

fun join_with :: "string \<Rightarrow> string list \<Rightarrow> string" where
  "join_with sep [] = []"
| "join_with sep [x] = x"
| "join_with sep (x # y # ys) = x @ sep @ join_with sep (y # ys)"

fun json_show :: "pyval \<Rightarrow> string" where
  "json_show PNone = ''null''"
| "json_show (PBool b) = (if b then ''true'' else ''false'')"
| "json_show (PNum n) = (if n < 0 then ''-'' @ show_nat (nat (- n)) else show_nat (nat n))"
| "json_show (PStr s) = [CHR 0x22] @ s @ [CHR 0x22]"
| "json_show (PList xs) = ''['' @ join_with '', '' (map json_show xs) @ '']''"
| "json_show (PDict kvs) =
     ''{'' @ join_with '', ''
              (map (\<lambda>kv. [CHR 0x22] @ fst kv @ [CHR 0x22] @ '': '' @ json_show (snd kv)) kvs)
     @ ''}''"
| "json_show PObject = []"

definition demo_env :: "string \<Rightarrow> env" where
  "demo_env bytes =
     \<lparr>PROC_FILE = ''proc.out'', RR_PIPE = ''rrdump_proc.pipe'', DEFAULT_CONFIG_PATH = ''tests/'',
      alive_after = (\<lambda>p. Some 1),
      ini_parse = (\<lambda>t. if t = ''two subjects'' then Inr demo_config
                        else if t = ''no subjects'' then Inr (take 1 demo_config)
                        else Inl ParsingError),
      json_load = (\<lambda>t. if t = ''{}'' then Some (PDict []) else None),
      json_text = (\<lambda>v. if serializable v then json_show v else ''{''),
      os_popen = (\<lambda>argv.
         if take 1 argv = [''rr'']
         then Some \<lparr>exit_status = Some 0, stdout_text = ''replaying'', pipe_bytes = Some bytes\<rparr>
         else if take 1 argv = [''inject'']
         then Some \<lparr>exit_status = Some 0, stdout_text = [], pipe_bytes = None\<rparr>
         else None),
      kill_fails = (\<lambda>n. False)\<rparr>"

definition demo_world :: world where
  "demo_world =
     \<lparr>fs = map_of [(''tests/demo'', Dir), (''tests/demo/config.ini'', File ''two subjects''),
                   (''tests/empty'', Dir), (''tests/empty/config.ini'', File ''no subjects''),
                   (''3_state.json'', File ''{}''), (''7_state.json'', File ''{}'')],
      rrdump_pipe = None, out = [], spawned = 0\<rparr>"

text \<open>The two subjects of that configuration as \<open>get_configuration\<close> returns them.\<close>

definition demo_subject :: subject where
  "demo_subject =
     \<lparr>event = ''3'', rec_pid = ''200'', trace_file = ''t.strace'', trace_start = ''0'',
      trace_end = ''5'', injected_state_file = ''3_state.json'', other_procs = [],
      mmap_backing_files = None, checker = Some ''chk'', mutator = None,
      pid = None, handle = None\<rparr>"

definition demo_subject7 :: subject where
  "demo_subject7 =
     \<lparr>event = ''7'', rec_pid = ''201'', trace_file = ''t.strace'', trace_start = ''0'',
      trace_end = ''9'', injected_state_file = ''7_state.json'', other_procs = [],
      mmap_backing_files = None, checker = None, mutator = None,
      pid = None, handle = None\<rparr>"

text \<open>The sample world once \<open>main\<close> has launched the replay engine.\<close>

definition demo_launched :: "string \<Rightarrow> world" where
  "demo_launched bytes =
     demo_world\<lparr>fs := (fs demo_world)(''proc.out'' \<mapsto> File ''replaying'',
                                         ''rrdump_proc.pipe'' \<mapsto> File bytes),
                 out := [Spawn [''rr'', ''replay'', ''-a'', ''-n'', ''200:3,201:7,'', ''trace/'']],
                 spawned := 1\<rparr>"

section \<open>Supporting lemmas\<close>

subsection \<open>Python primitives and the pipe reader\<close>

lemma read_loop_Some_cases:
  assumes "read_loop buf bs = Some y"
  shows "buf @ bs = [] \<or> CHR 0x0A \<in> set bs \<or> (buf \<noteq> [] \<and> last buf = CHR 0x0A)"
proof (rule read_loop.raw_induct
    [where P = "\<lambda>buf bs y. buf @ bs = [] \<or> CHR 0x0A \<in> set bs \<or> (buf \<noteq> [] \<and> last buf = CHR 0x0A)",
      OF _ assms], goal_cases)
  case (1 f buf bs y)
  show ?case
  proof (cases bs)
    case Nil
    with 1(2) have "buf = [] \<or> last buf = CHR 0x0A \<or> f buf [] = Some y"
      by (auto simp: read1_def Let_def split: if_splits)
    then show ?thesis using 1(1)[of buf "[]" y] Nil by auto
  next
    case (Cons b rest)
    with 1(2) have "b = CHR 0x0A \<or> f (buf @ [b]) rest = Some y"
      by (auto simp: read1_def Let_def split: if_splits)
    then show ?thesis using 1(1)[of "buf @ [b]" rest y] Cons by auto
  qed
qed

lemma read_loop_line:
  "CHR 0x0A \<notin> set xs \<Longrightarrow> read_loop buf (xs @ CHR 0x0A # rest) = Some (buf @ xs @ [CHR 0x0A], rest)"
proof (induction xs arbitrary: buf)
  case Nil
  show ?case by (subst read_loop.simps) (simp add: read1_def)
next
  case (Cons x xs)
  then have "read_loop (buf @ [x]) (xs @ CHR 0x0A # rest) = Some ((buf @ [x]) @ xs @ [CHR 0x0A], rest)"
    by simp
  with Cons.prems show ?case by (subst read_loop.simps) (auto simp: read1_def Let_def)
qed

lemma read_loop_eof: "read_loop [] [] = Some ([], [])"
  by (subst read_loop.simps) (simp add: read1_def)

lemma read_loop_partial:
  "bs \<noteq> [] \<Longrightarrow> CHR 0x0A \<notin> set bs \<Longrightarrow> read_loop [] bs = None"
  using read_loop_Some_cases[of "[]" bs] by (cases "read_loop [] bs") auto

lemma read_loop_char:
  "read_loop [] bs =
     (if bs = [] then Some ([], [])
      else if CHR 0x0A \<in> set bs
      then Some (takeWhile (\<lambda>c. c \<noteq> CHR 0x0A) bs @ [CHR 0x0A], drop 1 (dropWhile (\<lambda>c. c \<noteq> CHR 0x0A) bs))
      else None)"
proof (cases "bs = []")
  case True then show ?thesis by (simp add: read_loop_eof)
next
  case ne: False
  show ?thesis
  proof (cases "CHR 0x0A \<in> set bs")
    case False with ne show ?thesis by (simp add: read_loop_partial)
  next
    case True
    let ?xs = "takeWhile (\<lambda>c. c \<noteq> CHR 0x0A) bs" and ?r = "dropWhile (\<lambda>c. c \<noteq> CHR 0x0A) bs"
    from True have "?r \<noteq> []" by (simp add: dropWhile_eq_Nil_conv) 
    moreover then have "hd ?r = CHR 0x0A" using hd_dropWhile[of "\<lambda>c. c \<noteq> CHR 0x0A" bs] by simp
    ultimately have r: "?r = CHR 0x0A # drop 1 ?r" by (cases ?r) auto
    have "bs = ?xs @ CHR 0x0A # drop 1 ?r" using r takeWhile_dropWhile_id[of "\<lambda>c. c \<noteq> CHR 0x0A" bs] by simp
    moreover have "CHR 0x0A \<notin> set ?xs" by (auto dest: set_takeWhileD)
    ultimately have "read_loop [] bs = Some ([] @ ?xs @ [CHR 0x0A], drop 1 ?r)"
      using read_loop_line[of ?xs "[]" "drop 1 ?r"] by simp
    with ne True show ?thesis by simp
  qed
qed

lemma split_on_field:
  "c \<notin> set a \<Longrightarrow> split_on c (a @ c # rest) = a # split_on c rest"
  by (induction a) (auto split: list.splits)

lemma update_first_split:
  "\<forall>x\<in>set pre. \<not> P x \<Longrightarrow> P s \<Longrightarrow> update_first P y (pre @ s # post) = pre @ y # post"
  by (induction pre) auto

lemma filter_first_split:
  "\<forall>x\<in>set pre. \<not> P x \<Longrightarrow> P s \<Longrightarrow> filter P (pre @ s # post) = s # filter P post"
  by (induction pre) auto

lemma list_getitem_0: "list_getitem (x # xs) (PNum 0) = Inr x"
  by (simp add: list_getitem_def)

lemma list_getitem_Nil: "list_getitem [] (PNum 0) = Inl IndexError"
  by (simp add: list_getitem_def)

lemma list_getitem_2: "list_getitem (a # b # x # xs) (PNum 2) = Inr x"
  by (simp add: list_getitem_def)

lemma list_getitem_4: "list_getitem (a # b # c # d # x # xs) (PNum 4) = Inr x"
  by (simp add: list_getitem_def)

lemma list_getitem_str: "list_getitem xs (PStr i) = Inl TypeError"
  by (simp add: list_getitem_def)

lemma inject_parts:
  assumes "CHR '' '' \<notin> set ev" "CHR '' '' \<notin> set p"
  shows "\<exists>tl5. split_on CHR '' '' (''INJECT: EVENT: '' @ ev @ '' PID: '' @ p @ '' REC_PID: '' @ r)
           = ''INJECT:'' # ''EVENT:'' # ev # ''PID:'' # p # tl5"
  using assms by (simp add: split_on_field)

lemma dont_inject_parts:
  assumes "CHR '' '' \<notin> set ev" "CHR '' '' \<notin> set p"
  shows "\<exists>tl5. split_on CHR '' '' (''DONT_INJECT: EVENT: '' @ ev @ '' PID: '' @ p @ '' REC_PID: '' @ r)
           = ''DONT_INJECT:'' # ''EVENT:'' # ev # ''PID:'' # p # tl5"
  using assms by (simp add: split_on_field)

lemma verb_INJECT: "butlast (strip ''INJECT:'') = ''INJECT''"
  by (simp add: strip_def is_space_def)

lemma verb_DONT_INJECT: "butlast (strip ''DONT_INJECT:'') = ''DONT_INJECT''"
  by (simp add: strip_def is_space_def)

text \<open>handle_message once the message is split\<close>

lemma handle_message_parts:
  assumes "split_on CHR '' '' message = part0 # a # ev # b # p # tl5"
  shows "handle_message e message subjects w =
     (case wait_until_alive e p w of
        None \<Rightarrow> None
      | Some w1 \<Rightarrow>
          (case list_getitem (filter (\<lambda>x. event x = ev) subjects) (PNum 0) of
             Inl x \<Rightarrow> Some (Inl x, w1)
           | Inr s \<Rightarrow>
               (if butlast (strip part0) = ''INJECT''
                then (case inject_subject e p s w1 of
                        (Inl x, w2) \<Rightarrow> Some (Inl x, w2)
                      | (Inr s1, w2) \<Rightarrow>
                          Some (Inr (update_first (\<lambda>x. event x = ev) s1 subjects), w2))
                else if butlast (strip part0) = ''DONT_INJECT''
                then Some (Inr (update_first (\<lambda>x. event x = ev)
                                  (s\<lparr>other_procs := other_procs s @ [p]\<rparr>) subjects), w1)
                else Some (Inr subjects, w1))))"
  using assms
  by (cases "wait_until_alive e p w")
     (simp_all add: handle_message_def Let_def list_getitem_0 list_getitem_2 list_getitem_4)

lemma handle_message_unmatched:
  assumes "split_on CHR '' '' message = part0 # a # ev # b # p # tl5"
    and "alive_after e p = Some n"
    and "\<forall>x\<in>set subjects. event x \<noteq> ev"
  shows "handle_message e message subjects w =
           Some (Inl IndexError, w\<lparr>out := out w @ replicate n (Print ''waiting...'')\<rparr>)"
proof -
  have "filter (\<lambda>x. event x = ev) subjects = []" using assms(3) by (simp add: filter_empty_conv)
  then show ?thesis
    using assms(2) by (simp add: handle_message_parts[OF assms(1)] wait_until_alive_def list_getitem_Nil)
qed

lemma handle_message_dont_inject:
  assumes "split_on CHR '' '' message = ''DONT_INJECT:'' # a # ev # b # p # tl5"
    and "alive_after e p = Some n"
    and "subjects = pre @ s # post" "\<forall>x\<in>set pre. event x \<noteq> ev" "event s = ev"
  shows "handle_message e message subjects w =
           Some (Inr (pre @ s\<lparr>other_procs := other_procs s @ [p]\<rparr> # post),
                 w\<lparr>out := out w @ replicate n (Print ''waiting...'')\<rparr>)"
  using assms(2-)
  by (simp add: handle_message_parts[OF assms(1)] wait_until_alive_def verb_DONT_INJECT
      filter_first_split list_getitem_0 update_first_split)

lemma message_parts_any_verb:
  assumes "CHR '' '' \<notin> set verb" "CHR '' '' \<notin> set ev" "CHR '' '' \<notin> set p"
  shows "\<exists>tl5. split_on CHR '' '' (verb @ '': EVENT: '' @ ev @ '' PID: '' @ p @ '' REC_PID: '' @ r)
           = (verb @ '':'') # ''EVENT:'' # ev # ''PID:'' # p # tl5"
proof -
  have "verb @ '': EVENT: '' @ ev @ '' PID: '' @ p @ '' REC_PID: '' @ r
        = (verb @ '':'') @ CHR '' '' # (''EVENT: '' @ ev @ '' PID: '' @ p @ '' REC_PID: '' @ r)"
    by simp
  moreover have sp: "CHR '' '' \<notin> set (verb @ '':'')" using assms(1) by simp
  ultimately have "split_on CHR '' '' (verb @ '': EVENT: '' @ ev @ '' PID: '' @ p @ '' REC_PID: '' @ r)
        = (verb @ '':'') # split_on CHR '' '' (''EVENT: '' @ ev @ '' PID: '' @ p @ '' REC_PID: '' @ r)"
    using split_on_field[OF sp, of "''EVENT: '' @ ev @ '' PID: '' @ p @ '' REC_PID: '' @ r"]
    by metis
  then show ?thesis using assms(2,3) by (simp add: split_on_field)
qed

subsection \<open>The INJECT branch and one turn of the dispatch loop\<close>

lemma list_all_update:
  "list_all P kvs \<Longrightarrow> P (k, v) \<Longrightarrow> list_all P (AList.update k v kvs)"
  by (induction kvs) auto

lemma serializable_subject_dict: "serializable (subject_dict s) = (handle s = None)"
  by (cases "handle s")
     (auto simp: subject_dict_def opt_item_def list_all_iff split: option.splits)

lemma inject_subject_ok:
  assumes "read_file (injected_state_file s) w = Inr text"
    and "json_load e text = Some (PDict kvs)"
    and "serializable (PDict kvs)"
    and "handle s = None"
    and "os_popen e [''inject'', ''--verbosity=40'', injected_state_file s] = Some b"
  shows "\<exists>w1. inject_subject e p s w =
           (Inr (s\<lparr>pid := Some p, handle := Some \<lparr>child = spawned w, returncode = exit_status b\<rparr>\<rparr>), w1)
         \<and> out w1 = out w @
              [Write (injected_state_file s)
                 (json_text e (PDict (AList.update ''config'' (subject_dict (s\<lparr>pid := Some p\<rparr>)) kvs))),
               Spawn [''inject'', ''--verbosity=40'', injected_state_file s]]
         \<and> spawned w1 = Suc (spawned w) \<and> rrdump_pipe w1 = rrdump_pipe w
         \<and> fs w1 =
             (case pipe_bytes b of
                None \<Rightarrow> (fs w)(injected_state_file s \<mapsto>
                  File (json_text e (PDict (AList.update ''config'' (subject_dict (s\<lparr>pid := Some p\<rparr>)) kvs))))
              | Some bs \<Rightarrow> (fs w)(injected_state_file s \<mapsto>
                  File (json_text e (PDict (AList.update ''config'' (subject_dict (s\<lparr>pid := Some p\<rparr>)) kvs))),
                  RR_PIPE e \<mapsto> File bs))"
proof -
  have ser: "serializable (PDict (AList.update ''config'' (subject_dict (s\<lparr>pid := Some p\<rparr>)) kvs))"
    using assms(3,4) by (simp add: list_all_update serializable_subject_dict)
  have notdir: "fs w (injected_state_file s) \<noteq> Some Dir"
    using assms(1) by (auto simp: read_file_def split: option.splits node.splits)
  show ?thesis
    using assms(1,2,5) ser notdir
    by (cases "pipe_bytes b")
       (auto simp: inject_subject_def dict_setitem_def open_w_def file_write_def Popen_def Let_def
             split: option.splits node.splits)
qed

lemma inject_subject_out:
  assumes "inject_subject e p s w = (res, w1)"
  shows "out w1 = out w
       \<or> (\<exists>t. out w1 = out w @ [Write (injected_state_file s) t] \<and> isl res)
       \<or> (\<exists>t. out w1 = out w @ [Write (injected_state_file s) t,
                                  Spawn [''inject'', ''--verbosity=40'', injected_state_file s]]
               \<and> \<not> isl res)"
  using assms
  by (auto simp: inject_subject_def dict_setitem_def open_w_def file_write_def Popen_def Let_def
           split: option.splits node.splits sum.splits pyval.splits if_splits prod.splits)

lemma list_getitem_0_mem: "list_getitem xs (PNum 0) = Inr s \<Longrightarrow> s \<in> set xs"
  by (cases xs) (auto simp: list_getitem_def)



lemma handle_message_cases:
  assumes "handle_message e message subjects w = Some (res, w1)"
  obtains
    (parse) x where "res = Inl x" "w1 = w"
  | (unmatched) p wa where "wait_until_alive e p w = Some wa" "res = Inl IndexError" "w1 = wa"
  | (inject) p ev wa s r where "wait_until_alive e p w = Some wa" "event s = ev"
      "inject_subject e p s wa = (r, w1)"
      "res = (case r of Inl x \<Rightarrow> Inl x | Inr s1 \<Rightarrow> Inr (update_first (\<lambda>x. event x = ev) s1 subjects))"
  | (dont) p ev wa s where "wait_until_alive e p w = Some wa" "event s = ev"
      "res = Inr (update_first (\<lambda>x. event x = ev) (s\<lparr>other_procs := other_procs s @ [p]\<rparr>) subjects)"
      "w1 = wa"
  | (other) p wa where "wait_until_alive e p w = Some wa" "res = Inr subjects" "w1 = wa"
proof -
  define parts where "parts = split_on CHR '' '' message"
  show thesis
  proof (cases "list_getitem parts (PNum 0)")
    case (Inl x)
    with assms show thesis by (intro parse[of x]) (auto simp: handle_message_def parts_def)
  next
    case p0: (Inr part0)
    show thesis
    proof (cases "list_getitem parts (PNum 2)")
      case (Inl x)
      with assms p0 show thesis by (intro parse[of x]) (auto simp: handle_message_def parts_def Let_def)
    next
      case p2: (Inr ev)
      show thesis
      proof (cases "list_getitem parts (PNum 4)")
        case (Inl x)
        with assms p0 p2 show thesis
          by (intro parse[of x]) (auto simp: handle_message_def parts_def Let_def)
      next
        case p4: (Inr p)
        show thesis
        proof (cases "wait_until_alive e p w")
          case None
          with assms p0 p2 p4 show thesis by (simp add: handle_message_def parts_def Let_def)
        next
          case wa: (Some wa)
          show thesis
          proof (cases "list_getitem (filter (\<lambda>x. event x = ev) subjects) (PNum 0)")
            case (Inl x)
            then have "x = IndexError" by (auto simp: list_getitem_def Let_def split: if_splits)
            with Inl assms p0 p2 p4 wa show thesis
              by (intro unmatched[of p wa]) (auto simp: handle_message_def parts_def Let_def)
          next
            case s: (Inr s)
            then have es: "event s = ev" by (auto dest: list_getitem_0_mem)
            have hm: "Some (res, w1) = (if butlast (strip part0) = ''INJECT''
                then (case inject_subject e p s wa of
                        (Inl x, w2) \<Rightarrow> Some (Inl x, w2)
                      | (Inr s1, w2) \<Rightarrow>
                          Some (Inr (update_first (\<lambda>x. event x = ev) s1 subjects), w2))
                else if butlast (strip part0) = ''DONT_INJECT''
                then Some (Inr (update_first (\<lambda>x. event x = ev)
                                  (s\<lparr>other_procs := other_procs s @ [p]\<rparr>) subjects), wa)
                else Some (Inr subjects, wa))"
              using assms p0 p2 p4 wa s by (simp add: handle_message_def parts_def Let_def)
            show thesis
            proof (cases "butlast (strip part0) = ''INJECT''")
              case True
              obtain r w2 where i: "inject_subject e p s wa = (r, w2)" by (cases "inject_subject e p s wa")
              with hm True have "w1 = w2" 
                 "res = (case r of Inl x \<Rightarrow> Inl x | Inr s1 \<Rightarrow> Inr (update_first (\<lambda>x. event x = ev) s1 subjects))"
                by (cases r; simp)+
              with i wa es show thesis by (intro inject[of p wa s ev r]) auto
            next
              case False
              show thesis
              proof (cases "butlast (strip part0) = ''DONT_INJECT''")
                case True
                with hm False wa es show thesis by (intro dont[of p wa s ev]) auto
              next
                case F2: False
                with hm False wa show thesis by (intro other[of p wa]) auto
              qed
            qed
          qed
        qed
      qed
    qed
  qed
qed

lemma wait_until_alive_out:
  "wait_until_alive e p w = Some wa \<Longrightarrow> \<exists>k. wa = w\<lparr>out := out w @ replicate k (Print ''waiting...'')\<rparr>"
  by (auto simp: wait_until_alive_def split: option.splits)


lemma handle_message_out:
  assumes "handle_message e message subjects w = Some (res, w1)"
  shows "\<exists>k tail. out w1 = out w @ replicate k (Print ''waiting...'') @ tail
       \<and> (tail = []
          \<or> (\<exists>f t. tail = [Write f t] \<and> isl res)
          \<or> (\<exists>f t. tail = [Write f t, Spawn [''inject'', ''--verbosity=40'', f]] \<and> \<not> isl res))"
  using assms
proof (cases rule: handle_message_cases)
  case (parse x)
  then have "out w1 = out w @ replicate 0 (Print ''waiting...'') @ []" by simp
  then show ?thesis by blast
next
  case (unmatched p wa)
  then obtain k where "out w1 = out w @ replicate k (Print ''waiting...'') @ []"
    by (auto dest: wait_until_alive_out)
  then show ?thesis by blast
next
  case (inject p ev wa s r)
  from inject(1) obtain k where k: "out wa = out w @ replicate k (Print ''waiting...'')"
    by (auto dest: wait_until_alive_out)
  have r: "isl res = isl r" using inject(4) by (cases r) auto
  from inject_subject_out[OF inject(3)] show ?thesis
  proof (elim disjE exE conjE)
    assume "out w1 = out wa"
    with k have "out w1 = out w @ replicate k (Print ''waiting...'') @ []" by simp
    then show ?thesis by blast
  next
    fix t assume "out w1 = out wa @ [Write (injected_state_file s) t]" "isl r"
    with k r have "out w1 = out w @ replicate k (Print ''waiting...'') @ [Write (injected_state_file s) t]" "isl res"
      by simp_all
    then show ?thesis by blast
  next
    fix t assume "out w1 = out wa @ [Write (injected_state_file s) t,
                                  Spawn [''inject'', ''--verbosity=40'', injected_state_file s]]" "\<not> isl r"
    with k r have "out w1 = out w @ replicate k (Print ''waiting...'') @ [Write (injected_state_file s) t,
                                  Spawn [''inject'', ''--verbosity=40'', injected_state_file s]]" "\<not> isl res"
      by simp_all
    then show ?thesis by blast
  qed
next
  case (dont p ev wa s)
  then obtain k where "out w1 = out w @ replicate k (Print ''waiting...'') @ []"
    by (auto dest: wait_until_alive_out)
  then show ?thesis by blast
next
  case (other p wa)
  then obtain k where "out w1 = out w @ replicate k (Print ''waiting...'') @ []"
    by (auto dest: wait_until_alive_out)
  then show ?thesis by blast
qed

lemma handle_message_inject:
  assumes "split_on CHR '' '' message = ''INJECT:'' # a # ev # b # p # tl5"
    and "alive_after e p = Some n"
    and "subjects = pre @ s # post" "\<forall>x\<in>set pre. event x \<noteq> ev" "event s = ev"
    and "read_file (injected_state_file s) w = Inr text"
    and "json_load e text = Some (PDict kvs)"
    and "serializable (PDict kvs)"
    and "handle s = None"
    and "os_popen e [''inject'', ''--verbosity=40'', injected_state_file s] = Some c"
  shows "\<exists>w1. handle_message e message subjects w =
           Some (Inr (pre @ s\<lparr>pid := Some p,
                               handle := Some \<lparr>child = spawned w, returncode = exit_status c\<rparr>\<rparr> # post), w1)
         \<and> out w1 = out w @ replicate n (Print ''waiting...'') @
              [Write (injected_state_file s)
                 (json_text e (PDict (AList.update ''config'' (subject_dict (s\<lparr>pid := Some p\<rparr>)) kvs))),
               Spawn [''inject'', ''--verbosity=40'', injected_state_file s]]
         \<and> fs w1 =
             (case pipe_bytes c of
                None \<Rightarrow> (fs w)(injected_state_file s \<mapsto>
                  File (json_text e (PDict (AList.update ''config'' (subject_dict (s\<lparr>pid := Some p\<rparr>)) kvs))))
              | Some bs \<Rightarrow> (fs w)(injected_state_file s \<mapsto>
                  File (json_text e (PDict (AList.update ''config'' (subject_dict (s\<lparr>pid := Some p\<rparr>)) kvs))),
                  RR_PIPE e \<mapsto> File bs))"
proof -
  let ?wa = "w\<lparr>out := out w @ replicate n (Print ''waiting...'')\<rparr>"
  let ?t = "json_text e (PDict (AList.update ''config'' (subject_dict (s\<lparr>pid := Some p\<rparr>)) kvs))"
  have rf: "read_file (injected_state_file s) ?wa = Inr text"
    using assms(6) by (simp add: read_file_def)
  from inject_subject_ok[OF rf assms(7,8,9,10), of p]
  obtain w1 where i: "inject_subject e p s ?wa =
           (Inr (s\<lparr>pid := Some p, handle := Some \<lparr>child = spawned ?wa, returncode = exit_status c\<rparr>\<rparr>), w1)"
     and o: "out w1 = out ?wa @
              [Write (injected_state_file s) ?t,
               Spawn [''inject'', ''--verbosity=40'', injected_state_file s]]"
     and f: "fs w1 =
             (case pipe_bytes c of
                None \<Rightarrow> (fs ?wa)(injected_state_file s \<mapsto> File ?t)
              | Some bs \<Rightarrow> (fs ?wa)(injected_state_file s \<mapsto> File ?t, RR_PIPE e \<mapsto> File bs))"
    by blast
  have "handle_message e message subjects w = Some (Inr (pre @ s\<lparr>pid := Some p,
                               handle := Some \<lparr>child = spawned w, returncode = exit_status c\<rparr>\<rparr> # post), w1)"
    using assms(2-5) i
    by (simp add: handle_message_parts[OF assms(1)] wait_until_alive_def verb_INJECT
        filter_first_split list_getitem_0 update_first_split)
  with o f show ?thesis by (cases "pipe_bytes c") simp_all
qed

lemma inject_subject_Inr:
  assumes "inject_subject e p s w = (Inr s1, w1)"
  shows "\<exists>text kvs c. read_file (injected_state_file s) w = Inr text
       \<and> json_load e text = Some (PDict kvs)
       \<and> os_popen e [''inject'', ''--verbosity=40'', injected_state_file s] = Some c
       \<and> s1 = s\<lparr>pid := Some p, handle := Some \<lparr>child = spawned w, returncode = exit_status c\<rparr>\<rparr>
       \<and> out w1 = out w @
            [Write (injected_state_file s)
               (json_text e (PDict (AList.update ''config'' (subject_dict (s\<lparr>pid := Some p\<rparr>)) kvs))),
             Spawn [''inject'', ''--verbosity=40'', injected_state_file s]]
       \<and> fs w1 =
           (case pipe_bytes c of
              None \<Rightarrow> (fs w)(injected_state_file s \<mapsto>
                File (json_text e (PDict (AList.update ''config'' (subject_dict (s\<lparr>pid := Some p\<rparr>)) kvs))))
            | Some bs \<Rightarrow> (fs w)(injected_state_file s \<mapsto>
                File (json_text e (PDict (AList.update ''config'' (subject_dict (s\<lparr>pid := Some p\<rparr>)) kvs))),
                RR_PIPE e \<mapsto> File bs))"
proof -
  from assms obtain body where t: "read_file (injected_state_file s) w = Inr body"
    by (cases "read_file (injected_state_file s) w") (auto simp: inject_subject_def)
  from assms t obtain tmp where l: "json_load e body = Some tmp"
    by (cases "json_load e body") (auto simp: inject_subject_def)
  from assms t l obtain kvs where k: "tmp = PDict kvs"
    by (cases tmp) (auto simp: inject_subject_def dict_setitem_def Let_def)
  have nd: "fs w (injected_state_file s) \<noteq> Some Dir"
    using t by (auto simp: read_file_def split: option.splits node.splits)
  let ?doc = "PDict (AList.update ''config'' (subject_dict (s\<lparr>pid := Some p\<rparr>)) kvs)"
  from assms t l k nd have ser: "serializable ?doc"
    by (auto simp: inject_subject_def dict_setitem_def Let_def open_w_def
             split: option.splits node.splits if_splits)
  from assms t l k nd ser obtain c where
    c: "os_popen e [''inject'', ''--verbosity=40'', injected_state_file s] = Some c"
    by (cases "os_popen e [''inject'', ''--verbosity=40'', injected_state_file s]")
       (auto simp: inject_subject_def dict_setitem_def Let_def open_w_def Popen_def
             split: option.splits node.splits if_splits)
  from assms t l k nd ser c have
    "s1 = s\<lparr>pid := Some p, handle := Some \<lparr>child = spawned w, returncode = exit_status c\<rparr>\<rparr>"
    "out w1 = out w @ [Write (injected_state_file s) (json_text e ?doc),
             Spawn [''inject'', ''--verbosity=40'', injected_state_file s]]"
    "fs w1 =
           (case pipe_bytes c of
              None \<Rightarrow> (fs w)(injected_state_file s \<mapsto> File (json_text e ?doc))
            | Some bs \<Rightarrow> (fs w)(injected_state_file s \<mapsto> File (json_text e ?doc),
                RR_PIPE e \<mapsto> File bs))"
    by (cases "pipe_bytes c";
        auto simp: inject_subject_def dict_setitem_def Let_def open_w_def Popen_def file_write_def
             split: option.splits node.splits if_splits)+
  with t l k c show ?thesis by blast
qed

subsection \<open>The dispatch loop\<close>

lemma get_message_char:
  assumes "rrdump_pipe w = Some bs \<or> (rrdump_pipe w = None \<and> fs w pipe_name = Some (File bs))"
  shows "get_message pipe_name w =
     (if bs = [] then Some (Inr [], w\<lparr>rrdump_pipe := Some []\<rparr>)
      else if CHR 0x0A \<in> set bs
      then Some (Inr (takeWhile (\<lambda>c. c \<noteq> CHR 0x0A) bs @ [CHR 0x0A]),
                 w\<lparr>rrdump_pipe := Some (drop 1 (dropWhile (\<lambda>c. c \<noteq> CHR 0x0A) bs))\<rparr>)
      else None)"
  using assms
  by (auto simp: get_message_def path_exists_def read_file_def read_loop_char)




subsection \<open>Configuration and sorting\<close>










subsection \<open>Supervision\<close>

lemma kill_other_procs_TypeError:
  "kill_other_procs e procs (i # rest) w = (Inl TypeError, w)"
  by (simp add: list_getitem_str)



subsection \<open>main, cleanup and the top level\<close>

lemma loop_after_message_loop:
  "loop_after e n message0 subjects0 w0 = Some (message, subjects, w) \<Longrightarrow>
   message_loop e message0 subjects0 w0 = message_loop e message subjects w"
proof (induction n arbitrary: message0 subjects0 w0)
  case 0
  then show ?case by simp
next
  case (Suc n)
  from Suc.prems obtain s1 w1 m1 w2 where
    ne: "message0 \<noteq> []" and h: "handle_message e message0 subjects0 w0 = Some (Inr s1, w1)"
    and g: "get_message (RR_PIPE e) w1 = Some (Inr m1, w2)"
    and l: "loop_after e n m1 s1 w2 = Some (message, subjects, w)"
    by (auto split: if_splits option.splits sum.splits prod.splits)
  have "message_loop e message0 subjects0 w0 = message_loop e m1 s1 w2"
    using ne h g by (subst message_loop.simps) simp
  with Suc.IH[OF l] show ?case by simp
qed

lemma unlink_frame:
  assumes "unlink p w = (r, w1)"
  shows "\<exists>ps. out w1 = out w @ map Unlink ps \<and> spawned w1 = spawned w
           \<and> rrdump_pipe w1 = rrdump_pipe w"
proof (cases "r = Inr ()")
  case True
  with assms have "out w1 = out w @ map Unlink [p]" "spawned w1 = spawned w"
    "rrdump_pipe w1 = rrdump_pipe w"
    by (auto simp: unlink_def split: option.splits node.splits)
  then show ?thesis by blast
next
  case False
  with assms have "out w1 = out w @ map Unlink []" "spawned w1 = spawned w"
    "rrdump_pipe w1 = rrdump_pipe w"
    by (auto simp: unlink_def split: option.splits node.splits)
  then show ?thesis by blast
qed

lemma cleanup_frame:
  assumes "cleanup e w = (r, w1)"
  shows "\<exists>ps. out w1 = out w @ map Unlink ps \<and> spawned w1 = spawned w
           \<and> rrdump_pipe w1 = rrdump_pipe w"
proof -
  have skip: "\<And>w. out w = out w @ map Unlink []" by simp
  obtain ra wa where a: "(if path_exists (PROC_FILE e) w then unlink (PROC_FILE e) w else (Inr (), w)) = (ra, wa)"
    by (cases "(if path_exists (PROC_FILE e) w then unlink (PROC_FILE e) w else (Inr (), w))")
  have "\<exists>ps. out wa = out w @ map Unlink ps \<and> spawned wa = spawned w \<and> rrdump_pipe wa = rrdump_pipe w"
  proof (cases "path_exists (PROC_FILE e) w")
    case True with a unlink_frame show ?thesis by simp
  next
    case False with a skip[of w] show ?thesis by (metis Pair_inject)
  qed
  then obtain ps where ps: "out wa = out w @ map Unlink ps" "spawned wa = spawned w" "rrdump_pipe wa = rrdump_pipe w"
    by blast
  show ?thesis
  proof (cases ra)
    case (Inl x)
    with assms a have "w1 = wa" by (simp add: cleanup_def)
    with ps show ?thesis by blast
  next
    case (Inr u1)
    with assms a have b: "(if path_exists (RR_PIPE e) wa then unlink (RR_PIPE e) wa else (Inr (), wa)) = (r, w1)"
      by (simp add: cleanup_def)
    have "\<exists>qs. out w1 = out wa @ map Unlink qs \<and> spawned w1 = spawned wa \<and> rrdump_pipe w1 = rrdump_pipe wa"
    proof (cases "path_exists (RR_PIPE e) wa")
      case True with b unlink_frame show ?thesis by simp
    next
      case False with b skip[of wa] show ?thesis by (metis Pair_inject)
    qed
    then obtain qs where "out w1 = out wa @ map Unlink qs" "spawned w1 = spawned wa" "rrdump_pipe w1 = rrdump_pipe wa"
      by blast
    with ps have "out w1 = out w @ map Unlink (ps @ qs)" "spawned w1 = spawned w" "rrdump_pipe w1 = rrdump_pipe w"
      by simp_all
    then show ?thesis by blast
  qed
qed

lemma cleanup_files:
  assumes "fs w (PROC_FILE e) \<noteq> Some Dir" "fs w (RR_PIPE e) \<noteq> Some Dir"
  shows "\<exists>w1. cleanup e w = (Inr (), w1) \<and> fs w1 = (fs w)(PROC_FILE e := None, RR_PIPE e := None)"
  using assms
  by (auto simp: cleanup_def path_exists_def unlink_def fun_eq_iff split: option.splits node.splits)

lemma on_exception_status: "exit_status_of (fst (on_exception e w)) = 1"
  by (simp add: on_exception_def split: prod.splits sum.splits)

lemma run_Exception:
  "main e sigint testname w = Some (Inl x, w1) \<Longrightarrow> is_Exception x \<Longrightarrow>
   run e sigint testname w = Some (on_exception e w1)"
  by (cases x) (simp_all add: run_def)

lemma main_dispatch:
  assumes "cleanup e w0 = (Inr (), w1)"
    and "path_exists (DEFAULT_CONFIG_PATH e @ testname) w1"
    and "get_configuration e (DEFAULT_CONFIG_PATH e @ testname @ ''/config.ini'') w1
           = (Inr (rr_dir, subjects), w2)"
    and "execute_rr e rr_dir subjects w2 = (Inr (), w3)"
  shows "main e None testname w0 =
     (case process_messages e subjects w3 of
        None \<Rightarrow> None
      | Some (Inl x, w4) \<Rightarrow> Some (Inl x, w4)
      | Some (Inr subjects1, w4) \<Rightarrow>
          (case wait_on_handles e subjects1 w4 of
             None \<Rightarrow> None
           | Some (Inl x, w5) \<Rightarrow> Some (Inl x, w5)
           | Some (Inr u, w5) \<Rightarrow> Some (cleanup e w5)))"
  using assms by (simp add: main_def Let_def split: option.split sum.split prod.split)

lemma main_no_subjects:
  assumes "cleanup e w = (Inr (), w1)"
    and "path_exists (DEFAULT_CONFIG_PATH e @ testname) w1"
    and "read_file (DEFAULT_CONFIG_PATH e @ testname @ ''/config.ini'') w1 = Inr text"
    and "ini_parse e text = Inr [(name, opts)]"
    and "map_of opts ''rr_dir'' = Some rr_dir"
  shows "run e None testname w =
           Some (Exited 0, w1\<lparr>out := out w1 @
                 [Print ''Configuration does not contain any simulation opportunities.'']\<rparr>)"
  using assms
  by (simp add: run_def main_def Let_def get_configuration_def list_getitem_0 cfg_get_def)

subsection \<open>The sample run, step by step\<close>

lemma py_int_3: "py_int ''3'' = Some 3"
  by (simp add: py_int_def strip_def is_space_def digits_val_def digit_val_def)

lemma py_int_7: "py_int ''7'' = Some 7"
  by (simp add: py_int_def strip_def is_space_def digits_val_def digit_val_def)

lemma demo_parse:
  "parse_subjects demo_config [''request_handling_process7'', ''request_handling_process3'']
     = Inr [demo_subject7, demo_subject]"
  by (simp add: parse_subject_def cfg_get_def cfg_get_optional_def ebind_def demo_config_def
      demo_subject_def demo_subject7_def)

lemma demo_sort: "sort_by_event [demo_subject7, demo_subject] = Inr [demo_subject, demo_subject7]"
  by (simp add: sort_by_event_def demo_subject_def demo_subject7_def py_int_3 py_int_7)

lemma demo_get_configuration:
  "get_configuration (demo_env bs) ''tests/demo/config.ini'' (demo_world\<lparr>out := xs\<rparr>)
     = (Inr (''trace/'', [demo_subject, demo_subject7]), demo_world\<lparr>out := xs\<rparr>)"
proof -
  have "map fst demo_config = [''rr_recording'', ''request_handling_process7'', ''request_handling_process3'']"
    by (simp add: demo_config_def)
  moreover have "cfg_get demo_config ''rr_recording'' ''rr_dir'' = Inr ''trace/''"
    by (simp add: demo_config_def cfg_get_def)
  moreover have "ebind (parse_subjects demo_config
                     [''request_handling_process7'', ''request_handling_process3''])
                   sort_by_event = Inr [demo_subject, demo_subject7]"
    by (simp only: demo_parse demo_sort ebind_def sum.case)
  ultimately show ?thesis
    by (simp add: get_configuration_def read_file_def demo_world_def demo_env_def Let_def
        list_getitem_0 del: parse_subjects.simps)
qed

lemma demo_cleanup: "cleanup (demo_env bs) demo_world = (Inr (), demo_world)"
  by (simp add: cleanup_def path_exists_def demo_env_def demo_world_def)

lemma demo_execute_rr:
  "execute_rr (demo_env bs) ''trace/'' [demo_subject, demo_subject7] demo_world
     = (Inr (), demo_launched bs)"
  by (simp add: execute_rr_def open_w_def Popen_def demo_env_def demo_world_def
      demo_subject_def demo_subject7_def demo_launched_def Let_def)

lemma demo_main_dispatch:
  "main (demo_env bs) None ''demo'' demo_world =
     (case process_messages (demo_env bs) [demo_subject, demo_subject7]
             (demo_launched bs) of
        None \<Rightarrow> None
      | Some (Inl x, w4) \<Rightarrow> Some (Inl x, w4)
      | Some (Inr subjects1, w4) \<Rightarrow>
          (case wait_on_handles (demo_env bs) subjects1 w4 of
             None \<Rightarrow> None
           | Some (Inl x, w5) \<Rightarrow> Some (Inl x, w5)
           | Some (Inr u, w5) \<Rightarrow> Some (cleanup (demo_env bs) w5)))"
proof -
  have p: "path_exists (DEFAULT_CONFIG_PATH (demo_env bs) @ ''demo'') demo_world"
    by (simp add: path_exists_def demo_env_def demo_world_def)
  have g: "get_configuration (demo_env bs) (DEFAULT_CONFIG_PATH (demo_env bs) @ ''demo'' @ ''/config.ini'')
             demo_world = (Inr (''trace/'', [demo_subject, demo_subject7]), demo_world)"
    using demo_get_configuration[of bs "[]"] by (simp add: demo_env_def demo_world_def)
  from main_dispatch[OF demo_cleanup p g demo_execute_rr] show ?thesis .
qed

lemma takeWhile_upto: "c \<notin> set xs \<Longrightarrow> takeWhile (\<lambda>x. x \<noteq> c) (xs @ c # ys) = xs"
  by (induction xs) auto

lemma dropWhile_upto: "c \<notin> set xs \<Longrightarrow> dropWhile (\<lambda>x. x \<noteq> c) (xs @ c # ys) = c # ys"
  by (induction xs) auto

lemma demo_first_message:
  "bs \<noteq> [] \<Longrightarrow> CHR 0x0A \<notin> set (butlast bs) \<Longrightarrow> last bs = CHR 0x0A \<Longrightarrow>
   get_message (RR_PIPE (demo_env bs)) (demo_launched bs)
     = Some (Inr bs, (demo_launched bs)\<lparr>rrdump_pipe := Some []\<rparr>)"
proof -
  assume a: "bs \<noteq> []" "CHR 0x0A \<notin> set (butlast bs)" "last bs = CHR 0x0A"
  then have b: "bs = butlast bs @ [CHR 0x0A]" by (metis append_butlast_last_id)
  have s: "rrdump_pipe (demo_launched bs) = Some bs \<or>
        (rrdump_pipe (demo_launched bs) = None \<and>
         fs (demo_launched bs) (RR_PIPE (demo_env bs)) = Some (File bs))"
    by (simp add: demo_launched_def demo_world_def demo_env_def)
  have t: "takeWhile (\<lambda>c. c \<noteq> CHR 0x0A) bs = butlast bs"
    using takeWhile_upto[OF a(2), of "[]"] b by simp
  have d: "dropWhile (\<lambda>c. c \<noteq> CHR 0x0A) bs = [CHR 0x0A]"
    using dropWhile_upto[OF a(2), of "[]"] b by simp
  have "CHR 0x0A \<in> set bs" using a(1,3) by (metis last_in_set)
  with a(1) b show ?thesis
    by (simp add: get_message_char[OF s] t d)
qed

lemma demo_last_message:
  "rrdump_pipe w = Some [] \<Longrightarrow> get_message p w = Some (Inr [], w)"
  by (simp add: get_message_def read_loop_eof)

lemma message_loop_last_turn:
  assumes "message \<noteq> []"
    and "handle_message e message subjects w = Some (Inr subjects1, w1)"
    and "rrdump_pipe w1 = Some []"
  shows "message_loop e message subjects w = Some (Inr subjects1, w1)"
proof -
  have "message_loop e [] subjects1 w1 = Some (Inr subjects1, w1)"
    by (subst message_loop.simps) simp
  with assms show ?thesis
    by (subst message_loop.simps) (simp add: demo_last_message)
qed



lemma on_interrupt_with_log:
  assumes "read_file ''proc.out'' w = Inr t"
    and "fs w (PROC_FILE e) \<noteq> Some Dir" and "fs w (RR_PIPE e) \<noteq> Some Dir"
  shows "\<exists>w1. on_interrupt e w = (Exited 0, w1)
           \<and> fs w1 = (fs w)(PROC_FILE e := None, RR_PIPE e := None)"
  using assms cleanup_files[of "w\<lparr>out := out w @ [Print t]\<rparr>" e]
  by (auto simp: on_interrupt_def)

section \<open>The claims\<close>

text \<open>
  C1. The claim: an interrupt in any state of the orchestration, also before the replay
  launch, dumps the log, runs cleanup and exits with code 0. The code does not: the
  \<open>except KeyboardInterrupt\<close> block opens \<open>proc.out\<close> without checking that it exists.
  Here the signal arrives after \<open>main\<close> has removed a stale log and pipe and before the
  replay engine is launched: the handler raises \<open>IOError\<close>, nothing is dumped, cleanup
  is not reached and the exit status is 1.
\<close>

theorem interrupt_handler_crashes_without_log:
  "map_option (\<lambda>(en, w). (en, exit_status_of en, out w))
     (run (demo_env []) (Some LOAD_CONFIG) ''demo''
        (demo_world\<lparr>fs := (fs demo_world)(''proc.out'' \<mapsto> File ''stale'',
                                            ''rrdump_proc.pipe'' \<mapsto> File [])\<rparr>))
   = Some (Crashed IOError, 1, [Unlink ''proc.out'', Unlink ''rrdump_proc.pipe''])"
  by (simp add: run_def main_def demo_env_def demo_world_def cleanup_def path_exists_def
      unlink_def on_interrupt_def read_file_def Let_def)

text \<open>
  C2. The claim: the supervisor sends SIGKILL to every pid in \<open>other_procs\<close>, raises
  nothing and goes on to the next subject. The code does not: the argument of the
  \<open>logger.debug\<close> call before \<open>os.kill\<close> indexes the list with its own element, a
  pid string, which raises \<open>TypeError\<close>. On the sample test with the replay engine
  sending one \<open>DONT_INJECT\<close> message for event 3 and pid 100, the program launches the
  engine, waits for the pid, reports the missing handle of subject 3 and then ends
  through the \<open>except Exception\<close> block with exit code 1: no kill is sent and subject 7
  is never visited.
\<close>

theorem supervisor_never_kills_skipped_pid:
  "map_option (\<lambda>(en, w). (en, out w))
     (run (demo_env (''DONT_INJECT: EVENT: 3 PID: 100 REC_PID: 200'' @ [CHR 0x0A])) None ''demo''
        demo_world)
   = Some (Exited 1,
           [Spawn [''rr'', ''replay'', ''-a'', ''-n'', ''200:3,201:7,'', ''trace/''],
            Print ''waiting...'',
            PrintNoHandle (demo_subject\<lparr>other_procs := [''100'']\<rparr>),
            Unlink ''proc.out'', Unlink ''rrdump_proc.pipe''])"
proof -
  let ?M = "''DONT_INJECT: EVENT: 3 PID: 100 REC_PID: 200'' @ [CHR 0x0A]"
  let ?E = "demo_env ?M"
  let ?L1 = "(demo_launched ?M)\<lparr>rrdump_pipe := Some []\<rparr>"
  let ?L2 = "?L1\<lparr>out := out ?L1 @ replicate 1 (Print ''waiting...'')\<rparr>"
  let ?s = "demo_subject\<lparr>other_procs := other_procs demo_subject @ [''100'']\<rparr>"
  let ?L3 = "?L2\<lparr>out := out ?L2 @ [PrintNoHandle ?s]\<rparr>"
  have g: "get_message (RR_PIPE ?E) (demo_launched ?M) = Some (Inr ?M, ?L1)"
    by (rule demo_first_message) simp_all
  have parts: "split_on CHR '' '' ?M
      = ''DONT_INJECT:'' # ''EVENT:'' # ''3'' # ''PID:'' # ''100'' # [''REC_PID:'', ''200'' @ [CHR 0x0A]]"
    by simp
  have h: "handle_message ?E ?M [demo_subject, demo_subject7] ?L1
      = Some (Inr ([] @ ?s # [demo_subject7]), ?L2)"
    by (rule handle_message_dont_inject[OF parts])
       (simp_all add: demo_env_def demo_subject_def)
  have l: "message_loop ?E ?M [demo_subject, demo_subject7] ?L1 = Some (Inr [?s, demo_subject7], ?L2)"
    using message_loop_last_turn[OF _ h] by simp
  have p: "process_messages ?E [demo_subject, demo_subject7] (demo_launched ?M)
      = Some (Inr [?s, demo_subject7], ?L2)"
    using g l by (simp add: process_messages_def)
  have w: "wait_on_handles ?E [?s, demo_subject7] ?L2 = Some (Inl TypeError, ?L3)"
    by (simp add: demo_subject_def list_getitem_str)
  have m: "main ?E None ''demo'' demo_world = Some (Inl TypeError, ?L3)"
    by (simp only: demo_main_dispatch p w option.case prod.case sum.case)
  have r: "run ?E None ''demo'' demo_world = Some (on_exception ?E ?L3)"
    using run_Exception[OF m] by simp
  have "map_prod id out (on_exception ?E ?L3) = (Exited 1,
           [Spawn [''rr'', ''replay'', ''-a'', ''-n'', ''200:3,201:7,'', ''trace/''],
            Print ''waiting...'',
            PrintNoHandle (demo_subject\<lparr>other_procs := [''100'']\<rparr>),
            Unlink ''proc.out'', Unlink ''rrdump_proc.pipe''])"
    by (simp add: on_exception_def cleanup_def path_exists_def unlink_def demo_launched_def
        demo_world_def demo_env_def demo_subject_def)
  with r show ?thesis by (simp add: map_prod_def split: prod.splits)
qed

text \<open>
  C3. An \<open>INJECT\<close> message of the documented layout. (1) When its pid is seen alive,
  \<open>s\<close> is the first subject of its event and has no handle yet, the state file of
  \<open>s\<close> holds a JSON object and the injector can be started, the turn returns without
  an exception and its effects are, in this order: the progress prints, the write of the
  state file, and the spawn of \<open>inject --verbosity=40\<close> on that file; the subject gets
  the pid and the handle. The text written is what \<open>json.dump\<close> gives for the loaded
  object with the subject, its \<open>pid\<close> set from the message, under the key \<open>config\<close>,
  and after the turn the state file holds exactly that text (the old content is gone); the
  rest of the file system is as before, but for the pipe if the injector creates one.
  (2) Whenever the turn returns without an exception, all of this holds for the first
  subject of the event. (3) When it raises, no process has been spawned. (4) In the
  document written, the entry \<open>config\<close> is the subject's dict, whose entry \<open>pid\<close> is
  the pid of the message and whose entry \<open>event\<close> is the subject's event; every other
  entry of the document is as loaded.
\<close>

theorem inject_rewrites_state_before_spawn:
  assumes "message = ''INJECT: EVENT: '' @ ev @ '' PID: '' @ p @ '' REC_PID: '' @ r @ [CHR 0x0A]"
    and "CHR '' '' \<notin> set ev" and "CHR '' '' \<notin> set p"
  shows "(alive_after e p = Some n \<and> subjects = pre @ s # post \<and> (\<forall>x\<in>set pre. event x \<noteq> ev)
            \<and> event s = ev \<and> read_file (injected_state_file s) w = Inr body
            \<and> json_load e body = Some (PDict kvs) \<and> serializable (PDict kvs) \<and> handle s = None
            \<and> os_popen e [''inject'', ''--verbosity=40'', injected_state_file s] = Some c
          \<longrightarrow> (\<exists>w1. handle_message e message subjects w =
                  Some (Inr (pre @ s\<lparr>pid := Some p,
                                      handle := Some \<lparr>child = spawned w,
                                                     returncode = exit_status c\<rparr>\<rparr> # post), w1)
                \<and> out w1 = out w @ replicate n (Print ''waiting...'') @
                    [Write (injected_state_file s)
                       (json_text e (PDict (AList.update ''config''
                                              (subject_dict (s\<lparr>pid := Some p\<rparr>)) kvs))),
                     Spawn [''inject'', ''--verbosity=40'', injected_state_file s]]
                \<and> fs w1 =
                    (case pipe_bytes c of
                       None \<Rightarrow> (fs w)(injected_state_file s \<mapsto>
                         File (json_text e (PDict (AList.update ''config''
                                                     (subject_dict (s\<lparr>pid := Some p\<rparr>)) kvs))))
                     | Some bs \<Rightarrow> (fs w)(injected_state_file s \<mapsto>
                         File (json_text e (PDict (AList.update ''config''
                                                     (subject_dict (s\<lparr>pid := Some p\<rparr>)) kvs))),
                         RR_PIPE e \<mapsto> File bs))))
       \<and> (\<forall>subjects1 w1. handle_message e message subjects w = Some (Inr subjects1, w1)
            \<longrightarrow> (\<exists>k pre0 s0 post0 body0 kvs0 c0.
                    alive_after e p = Some k
                    \<and> subjects = pre0 @ s0 # post0 \<and> (\<forall>x\<in>set pre0. event x \<noteq> ev)
                    \<and> event s0 = ev
                    \<and> read_file (injected_state_file s0) w = Inr body0
                    \<and> json_load e body0 = Some (PDict kvs0)
                    \<and> os_popen e [''inject'', ''--verbosity=40'', injected_state_file s0] = Some c0
                    \<and> subjects1 = pre0 @ s0\<lparr>pid := Some p,
                                              handle := Some \<lparr>child = spawned w,
                                                             returncode = exit_status c0\<rparr>\<rparr> # post0
                    \<and> out w1 = out w @ replicate k (Print ''waiting...'') @
                        [Write (injected_state_file s0)
                           (json_text e (PDict (AList.update ''config''
                                                  (subject_dict (s0\<lparr>pid := Some p\<rparr>)) kvs0))),
                         Spawn [''inject'', ''--verbosity=40'', injected_state_file s0]]
                    \<and> fs w1 =
                        (case pipe_bytes c0 of
                           None \<Rightarrow> (fs w)(injected_state_file s0 \<mapsto>
                             File (json_text e (PDict (AList.update ''config''
                                                         (subject_dict (s0\<lparr>pid := Some p\<rparr>)) kvs0))))
                         | Some bs \<Rightarrow> (fs w)(injected_state_file s0 \<mapsto>
                             File (json_text e (PDict (AList.update ''config''
                                                         (subject_dict (s0\<lparr>pid := Some p\<rparr>)) kvs0))),
                             RR_PIPE e \<mapsto> File bs))))
       \<and> (\<forall>x w1. handle_message e message subjects w = Some (Inl x, w1)
            \<longrightarrow> (\<forall>argv. Spawn argv \<notin> set (drop (length (out w)) (out w1))))
       \<and> (\<forall>s0 kvs0.
             dict_getitem (PDict (AList.update ''config'' (subject_dict (s0\<lparr>pid := Some p\<rparr>)) kvs0))
               ''config'' = Some (subject_dict (s0\<lparr>pid := Some p\<rparr>))
           \<and> dict_getitem (subject_dict (s0\<lparr>pid := Some p\<rparr>)) ''pid'' = Some (PStr p)
           \<and> dict_getitem (subject_dict (s0\<lparr>pid := Some p\<rparr>)) ''event'' = Some (PStr (event s0))
           \<and> (\<forall>k. k \<noteq> ''config'' \<longrightarrow>
                 dict_getitem (PDict (AList.update ''config''
                                        (subject_dict (s0\<lparr>pid := Some p\<rparr>)) kvs0)) k
                 = dict_getitem (PDict kvs0) k))"
proof -
  from inject_parts[OF assms(2,3), of "r @ [CHR 0x0A]"] assms(1)
  obtain tl5 where parts:
    "split_on CHR '' '' message = ''INJECT:'' # ''EVENT:'' # ev # ''PID:'' # p # tl5"
    by auto
  have fwd: "alive_after e p = Some n \<and> subjects = pre @ s # post \<and> (\<forall>x\<in>set pre. event x \<noteq> ev)
            \<and> event s = ev \<and> read_file (injected_state_file s) w = Inr body
            \<and> json_load e body = Some (PDict kvs) \<and> serializable (PDict kvs) \<and> handle s = None
            \<and> os_popen e [''inject'', ''--verbosity=40'', injected_state_file s] = Some c
          \<longrightarrow> (\<exists>w1. handle_message e message subjects w =
                  Some (Inr (pre @ s\<lparr>pid := Some p,
                                      handle := Some \<lparr>child = spawned w,
                                                     returncode = exit_status c\<rparr>\<rparr> # post), w1)
                \<and> out w1 = out w @ replicate n (Print ''waiting...'') @
                    [Write (injected_state_file s)
                       (json_text e (PDict (AList.update ''config''
                                              (subject_dict (s\<lparr>pid := Some p\<rparr>)) kvs))),
                     Spawn [''inject'', ''--verbosity=40'', injected_state_file s]]
                \<and> fs w1 =
                    (case pipe_bytes c of
                       None \<Rightarrow> (fs w)(injected_state_file s \<mapsto>
                         File (json_text e (PDict (AList.update ''config''
                                                     (subject_dict (s\<lparr>pid := Some p\<rparr>)) kvs))))
                     | Some bs \<Rightarrow> (fs w)(injected_state_file s \<mapsto>
                         File (json_text e (PDict (AList.update ''config''
                                                     (subject_dict (s\<lparr>pid := Some p\<rparr>)) kvs))),
                         RR_PIPE e \<mapsto> File bs)))"
  proof (intro impI, elim conjE, goal_cases)
    case 1
    from handle_message_inject[OF parts 1] show ?case .
  qed
  have bwd: "\<exists>k pre0 s0 post0 body0 kvs0 c0.
                    alive_after e p = Some k
                    \<and> subjects = pre0 @ s0 # post0 \<and> (\<forall>x\<in>set pre0. event x \<noteq> ev)
                    \<and> event s0 = ev
                    \<and> read_file (injected_state_file s0) w = Inr body0
                    \<and> json_load e body0 = Some (PDict kvs0)
                    \<and> os_popen e [''inject'', ''--verbosity=40'', injected_state_file s0] = Some c0
                    \<and> subjects1 = pre0 @ s0\<lparr>pid := Some p,
                                              handle := Some \<lparr>child = spawned w,
                                                             returncode = exit_status c0\<rparr>\<rparr> # post0
                    \<and> out w1 = out w @ replicate k (Print ''waiting...'') @
                        [Write (injected_state_file s0)
                           (json_text e (PDict (AList.update ''config''
                                                  (subject_dict (s0\<lparr>pid := Some p\<rparr>)) kvs0))),
                         Spawn [''inject'', ''--verbosity=40'', injected_state_file s0]]
                    \<and> fs w1 =
                        (case pipe_bytes c0 of
                           None \<Rightarrow> (fs w)(injected_state_file s0 \<mapsto>
                             File (json_text e (PDict (AList.update ''config''
                                                         (subject_dict (s0\<lparr>pid := Some p\<rparr>)) kvs0))))
                         | Some bs \<Rightarrow> (fs w)(injected_state_file s0 \<mapsto>
                             File (json_text e (PDict (AList.update ''config''
                                                         (subject_dict (s0\<lparr>pid := Some p\<rparr>)) kvs0))),
                             RR_PIPE e \<mapsto> File bs))"
    if h: "handle_message e message subjects w = Some (Inr subjects1, w1)" for subjects1 w1
  proof -
    from h obtain k where k: "alive_after e p = Some k"
      by (cases "alive_after e p")
         (auto simp: handle_message_parts[OF parts] wait_until_alive_def)
    let ?wa = "w\<lparr>out := out w @ replicate k (Print ''waiting...'')\<rparr>"
    from h k obtain s0 where s0: "list_getitem (filter (\<lambda>x. event x = ev) subjects) (PNum 0) = Inr s0"
      by (cases "list_getitem (filter (\<lambda>x. event x = ev) subjects) (PNum 0)")
         (auto simp: handle_message_parts[OF parts] wait_until_alive_def)
    from list_getitem_0_mem[OF s0] have "s0 \<in> set subjects" "event s0 = ev" by simp_all
    then have "\<exists>x\<in>set subjects. event x = ev" by blast
    from split_list_first_prop[OF this] obtain pre0 x post0 where
      sp: "subjects = pre0 @ x # post0" "event x = ev" "\<forall>y\<in>set pre0. event y \<noteq> ev" by blast
    with s0 have x: "x = s0" by (simp add: filter_first_split list_getitem_0)
    from h k s0 obtain s1 where i: "inject_subject e p s0 ?wa = (Inr s1, w1)"
      and s1: "subjects1 = update_first (\<lambda>x. event x = ev) s1 subjects"
      by (cases "inject_subject e p s0 ?wa")
         (auto simp: handle_message_parts[OF parts] wait_until_alive_def verb_INJECT
               split: sum.splits)
    from s1 sp x have s1': "subjects1 = pre0 @ s1 # post0" by (simp add: update_first_split)
    from inject_subject_Inr[OF i] obtain body0 kvs0 c0 where
      r: "read_file (injected_state_file s0) ?wa = Inr body0" "json_load e body0 = Some (PDict kvs0)"
      "os_popen e [''inject'', ''--verbosity=40'', injected_state_file s0] = Some c0"
      "s1 = s0\<lparr>pid := Some p, handle := Some \<lparr>child = spawned ?wa, returncode = exit_status c0\<rparr>\<rparr>"
      "out w1 = out ?wa @
            [Write (injected_state_file s0)
               (json_text e (PDict (AList.update ''config'' (subject_dict (s0\<lparr>pid := Some p\<rparr>)) kvs0))),
             Spawn [''inject'', ''--verbosity=40'', injected_state_file s0]]"
      "fs w1 =
           (case pipe_bytes c0 of
              None \<Rightarrow> (fs ?wa)(injected_state_file s0 \<mapsto>
                File (json_text e (PDict (AList.update ''config'' (subject_dict (s0\<lparr>pid := Some p\<rparr>)) kvs0))))
            | Some bs \<Rightarrow> (fs ?wa)(injected_state_file s0 \<mapsto>
                File (json_text e (PDict (AList.update ''config'' (subject_dict (s0\<lparr>pid := Some p\<rparr>)) kvs0))),
                RR_PIPE e \<mapsto> File bs))"
      by blast
    have a: "read_file (injected_state_file s0) w = Inr body0" using r(1) by (simp add: read_file_def)
    have b: "subjects1 = pre0 @ s0\<lparr>pid := Some p,
                handle := Some \<lparr>child = spawned w, returncode = exit_status c0\<rparr>\<rparr> # post0"
      using s1' r(4) by simp
    have c: "out w1 = out w @ replicate k (Print ''waiting...'') @
            [Write (injected_state_file s0)
               (json_text e (PDict (AList.update ''config'' (subject_dict (s0\<lparr>pid := Some p\<rparr>)) kvs0))),
             Spawn [''inject'', ''--verbosity=40'', injected_state_file s0]]"
      using r(5) by simp
    have d: "fs w1 =
           (case pipe_bytes c0 of
              None \<Rightarrow> (fs w)(injected_state_file s0 \<mapsto>
                File (json_text e (PDict (AList.update ''config'' (subject_dict (s0\<lparr>pid := Some p\<rparr>)) kvs0))))
            | Some bs \<Rightarrow> (fs w)(injected_state_file s0 \<mapsto>
                File (json_text e (PDict (AList.update ''config'' (subject_dict (s0\<lparr>pid := Some p\<rparr>)) kvs0))),
                RR_PIPE e \<mapsto> File bs))"
      using r(6) by (cases "pipe_bytes c0") simp_all
    from sp(1,3) x have e1: "subjects = pre0 @ s0 # post0" "\<forall>x\<in>set pre0. event x \<noteq> ev" by simp_all
    from sp(2) x have e2: "event s0 = ev" by simp
    show ?thesis
      apply (rule exI[of _ k], rule exI[of _ pre0], rule exI[of _ s0], rule exI[of _ post0],
             rule exI[of _ body0], rule exI[of _ kvs0], rule exI[of _ c0])
      apply (intro conjI)
      apply (rule k e1 e2 a r(2) r(3) b c d)+
      done
  qed
  have fail: "Spawn argv \<notin> set (drop (length (out w)) (out w1))"
    if h: "handle_message e message subjects w = Some (Inl x, w1)" for x w1 argv
  proof -
    from handle_message_out[OF h] obtain k tail where
      o: "out w1 = out w @ replicate k (Print ''waiting...'') @ tail"
      and t: "tail = [] \<or> (\<exists>f t. tail = [Write f t])"
      by auto
    from t have "Spawn argv \<notin> set tail" by auto
    with o show ?thesis by auto
  qed
  have doc: "dict_getitem (PDict (AList.update ''config'' (subject_dict (s0\<lparr>pid := Some p\<rparr>)) kvs0))
               ''config'' = Some (subject_dict (s0\<lparr>pid := Some p\<rparr>))
           \<and> dict_getitem (subject_dict (s0\<lparr>pid := Some p\<rparr>)) ''pid'' = Some (PStr p)
           \<and> dict_getitem (subject_dict (s0\<lparr>pid := Some p\<rparr>)) ''event'' = Some (PStr (event s0))
           \<and> (\<forall>k. k \<noteq> ''config'' \<longrightarrow>
                 dict_getitem (PDict (AList.update ''config''
                                        (subject_dict (s0\<lparr>pid := Some p\<rparr>)) kvs0)) k
                 = dict_getitem (PDict kvs0) k)" for s0 kvs0
    by (simp add: dict_getitem_def update_conv' subject_dict_def opt_item_def
             split: option.splits)
  show ?thesis
    apply (intro conjI)
       apply (rule fwd)
      apply (intro allI impI)
      apply (erule bwd)
     apply (intro allI impI)
     apply (erule fail)
    apply (intro allI)
    apply (rule doc)
    done
qed

theorem inject_rewrites_state_before_spawn_witness:
  "(\<exists>w1. handle_message (demo_env []) (''INJECT: EVENT: 3 PID: 100 REC_PID: 200'' @ [CHR 0x0A])
            [demo_subject7, demo_subject] demo_world
          = Some (Inr [demo_subject7,
                       demo_subject\<lparr>pid := Some ''100'',
                                     handle := Some \<lparr>child = 0, returncode = Some 0\<rparr>\<rparr>], w1)
        \<and> out w1 =
            [Print ''waiting...'',
             Write ''3_state.json''
               ''{\"config\": {\"event\": \"3\", \"rec_pid\": \"200\", \"trace_file\": \"t.strace\", \"trace_start\": \"0\", \"trace_end\": \"5\", \"injected_state_file\": \"3_state.json\", \"other_procs\": [], \"checker\": \"chk\", \"pid\": \"100\"}}'',
             Spawn [''inject'', ''--verbosity=40'', ''3_state.json'']]
        \<and> fs demo_world ''3_state.json'' = Some (File ''{}'')
        \<and> fs w1 ''3_state.json'' = Some (File
               ''{\"config\": {\"event\": \"3\", \"rec_pid\": \"200\", \"trace_file\": \"t.strace\", \"trace_start\": \"0\", \"trace_end\": \"5\", \"injected_state_file\": \"3_state.json\", \"other_procs\": [], \"checker\": \"chk\", \"pid\": \"100\"}}'')
        \<and> fs w1 ''7_state.json'' = Some (File ''{}''))
   \<and> handle_message (demo_env []) (''INJECT: EVENT: 3 PID: 100 REC_PID: 200'' @ [CHR 0x0A])
        [demo_subject\<lparr>injected_state_file := ''missing.json''\<rparr>] demo_world
      = Some (Inl IOError, demo_world\<lparr>out := [Print ''waiting...'']\<rparr>)
   \<and> Spawn [''inject'', ''--verbosity=40'', ''missing.json'']
        \<notin> set (drop (length (out demo_world)) (out (demo_world\<lparr>out := [Print ''waiting...'']\<rparr>)))
   \<and> dict_getitem (subject_dict (demo_subject\<lparr>pid := Some ''100''\<rparr>)) ''pid'' = Some (PStr ''100'')"
proof -
  let ?M = "''INJECT: EVENT: 3 PID: 100 REC_PID: 200'' @ [CHR 0x0A]"
  let ?c = "\<lparr>exit_status = Some 0, stdout_text = [], pipe_bytes = None\<rparr>"
  let ?doc = "PDict (AList.update ''config'' (subject_dict (demo_subject\<lparr>pid := Some ''100''\<rparr>)) [])"
  let ?T = "''{\"config\": {\"event\": \"3\", \"rec_pid\": \"200\", \"trace_file\": \"t.strace\", \"trace_start\": \"0\", \"trace_end\": \"5\", \"injected_state_file\": \"3_state.json\", \"other_procs\": [], \"checker\": \"chk\", \"pid\": \"100\"}}''"
  have msg: "?M = ''INJECT: EVENT: '' @ ''3'' @ '' PID: '' @ ''100'' @ '' REC_PID: '' @ ''200'' @ [CHR 0x0A]"
    by simp
  note t = inject_rewrites_state_before_spawn[where e = "demo_env []" and w = demo_world, OF msg]
  have sp: "CHR '' '' \<notin> set ''3''" "CHR '' '' \<notin> set ''100''" by simp_all
  have pre: "alive_after (demo_env []) ''100'' = Some 1 \<and>
     [demo_subject7, demo_subject] = [demo_subject7] @ demo_subject # [] \<and>
     (\<forall>x\<in>set [demo_subject7]. event x \<noteq> ''3'') \<and> event demo_subject = ''3'' \<and>
     read_file (injected_state_file demo_subject) demo_world = Inr ''{}'' \<and>
     json_load (demo_env []) ''{}'' = Some (PDict []) \<and> serializable (PDict []) \<and>
     handle demo_subject = None \<and>
     os_popen (demo_env []) [''inject'', ''--verbosity=40'', injected_state_file demo_subject]
       = Some ?c"
    by (simp add: demo_env_def demo_subject_def demo_subject7_def demo_world_def read_file_def)
  from t[OF sp, where subjects = "[demo_subject7, demo_subject]" and n = 1
           and pre = "[demo_subject7]" and s = demo_subject and post = "[]" and body = "''{}''"
           and kvs = "[]" and c = ?c, THEN conjunct1, THEN mp, OF pre]
  obtain w1 where w1: "handle_message (demo_env []) ?M [demo_subject7, demo_subject] demo_world
          = Some (Inr ([demo_subject7] @ demo_subject\<lparr>pid := Some ''100'',
                                     handle := Some \<lparr>child = spawned demo_world,
                          returncode = exit_status ?c\<rparr>\<rparr> # []), w1)"
      "out w1 = out demo_world @ replicate 1 (Print ''waiting...'') @
          [Write (injected_state_file demo_subject) (json_text (demo_env []) ?doc),
           Spawn [''inject'', ''--verbosity=40'', injected_state_file demo_subject]]"
      "fs w1 = (case pipe_bytes ?c of
                  None \<Rightarrow> (fs demo_world)(injected_state_file demo_subject \<mapsto>
                             File (json_text (demo_env []) ?doc))
                | Some bs \<Rightarrow> (fs demo_world)(injected_state_file demo_subject \<mapsto>
                             File (json_text (demo_env []) ?doc),
                             RR_PIPE (demo_env []) \<mapsto> File bs))"
    by blast
  have ser: "serializable ?doc"
    by (simp add: serializable_subject_dict demo_subject_def)
  have "json_show ?doc = ?T"
    by (simp add: subject_dict_def opt_item_def demo_subject_def)
  with ser have jt: "json_text (demo_env []) ?doc = ?T"
    by (simp only: demo_env_def env.simps if_True)
  have a: "\<exists>w1. handle_message (demo_env []) ?M [demo_subject7, demo_subject] demo_world
          = Some (Inr [demo_subject7,
                       demo_subject\<lparr>pid := Some ''100'',
                                     handle := Some \<lparr>child = 0, returncode = Some 0\<rparr>\<rparr>], w1)
        \<and> out w1 = [Print ''waiting...'', Write ''3_state.json'' ?T,
                    Spawn [''inject'', ''--verbosity=40'', ''3_state.json'']]
        \<and> fs demo_world ''3_state.json'' = Some (File ''{}'')
        \<and> fs w1 ''3_state.json'' = Some (File ?T)
        \<and> fs w1 ''7_state.json'' = Some (File ''{}'')"
    using w1 by (simp only: jt) (simp add: demo_world_def demo_subject_def)
  have parts: "split_on CHR '' '' ?M
      = ''INJECT:'' # ''EVENT:'' # ''3'' # ''PID:'' # ''100'' # [''REC_PID:'', ''200'' @ [CHR 0x0A]]"
    by simp
  have b: "handle_message (demo_env []) ?M
        [demo_subject\<lparr>injected_state_file := ''missing.json''\<rparr>] demo_world
      = Some (Inl IOError, demo_world\<lparr>out := [Print ''waiting...'']\<rparr>)"
    by (subst handle_message_parts[OF parts])
       (simp add: wait_until_alive_def verb_INJECT list_getitem_0
        inject_subject_def read_file_def demo_env_def demo_subject_def demo_world_def)
  from t[OF sp, where subjects = "[demo_subject\<lparr>injected_state_file := ''missing.json''\<rparr>]",
         THEN conjunct2, THEN conjunct2, THEN conjunct1, THEN spec, THEN spec, THEN mp, OF b]
  have c: "Spawn [''inject'', ''--verbosity=40'', ''missing.json'']
        \<notin> set (drop (length (out demo_world)) (out (demo_world\<lparr>out := [Print ''waiting...'']\<rparr>)))"
    by blast
  from t[OF sp, THEN conjunct2, THEN conjunct2, THEN conjunct2, THEN spec, THEN spec,
         of demo_subject "[]"]
  have d: "dict_getitem (subject_dict (demo_subject\<lparr>pid := Some ''100''\<rparr>)) ''pid'' = Some (PStr ''100'')"
    by blast
  from a b c d show ?thesis by blast
qed



text \<open>
  C5. When the opening cleanup succeeds, the test directory exists and the
  configuration has the section with \<open>rr_dir\<close> and no other, the program prints that
  there are no simulation opportunities and exits with code 0. Its whole output is the
  unlinks of the opening cleanup and that line: nothing is spawned.
\<close>

theorem no_subjects_exits_0:
  assumes "cleanup e w = (Inr (), w1)"
    and "path_exists (DEFAULT_CONFIG_PATH e @ testname) w1"
    and "read_file (DEFAULT_CONFIG_PATH e @ testname @ ''/config.ini'') w1 = Inr body"
    and "ini_parse e body = Inr [(name, opts)]"
    and "map_of opts ''rr_dir'' = Some rr_dir"
  shows "run e None testname w =
           Some (Exited 0, w1\<lparr>out := out w1 @
                   [Print ''Configuration does not contain any simulation opportunities.'']\<rparr>)
         \<and> (\<exists>ps. out w1 = out w @ map Unlink ps) \<and> spawned w1 = spawned w"
proof -
  from cleanup_frame[OF assms(1)] obtain ps where
    "out w1 = out w @ map Unlink ps" "spawned w1 = spawned w" by blast
  with main_no_subjects[OF assms] show ?thesis by blast
qed

theorem no_subjects_exits_0_witness:
  "cleanup (demo_env []) demo_world = (Inr (), demo_world)
   \<and> path_exists ''tests/empty'' demo_world
   \<and> run (demo_env []) None ''empty'' demo_world
       = Some (Exited 0, demo_world\<lparr>out :=
                 [Print ''Configuration does not contain any simulation opportunities.'']\<rparr>)"
proof -
  have h: "path_exists (DEFAULT_CONFIG_PATH (demo_env []) @ ''empty'') demo_world"
    "read_file (DEFAULT_CONFIG_PATH (demo_env []) @ ''empty'' @ ''/config.ini'') demo_world
       = Inr ''no subjects''"
    "ini_parse (demo_env []) ''no subjects'' = Inr [(''rr_recording'', [(''rr_dir'', ''trace/'')])]"
    "map_of [(''rr_dir'', ''trace/'')] ''rr_dir'' = Some ''trace/''"
    by (simp_all add: path_exists_def read_file_def demo_env_def demo_world_def demo_config_def)
  from no_subjects_exits_0[OF demo_cleanup h] h(1) demo_cleanup[of "[]"]
  show ?thesis by (simp add: demo_env_def demo_world_def)
qed

text \<open>
  C6. Cleanup is idempotent: with the log and the pipe both absent it succeeds and
  changes nothing; it succeeds whenever neither path is a directory; and when it has
  succeeded, the log and the pipe are gone, no other path is touched, and a second call
  succeeds as a no-op.
\<close>

theorem cleanup_idempotent:
  "(fs w (PROC_FILE e) = None \<and> fs w (RR_PIPE e) = None \<longrightarrow> cleanup e w = (Inr (), w))
   \<and> (fs w (PROC_FILE e) \<noteq> Some Dir \<and> fs w (RR_PIPE e) \<noteq> Some Dir
        \<longrightarrow> (\<exists>w1. cleanup e w = (Inr (), w1)))
   \<and> (\<forall>w1. cleanup e w = (Inr (), w1)
        \<longrightarrow> fs w1 = (fs w)(PROC_FILE e := None, RR_PIPE e := None)
            \<and> cleanup e w1 = (Inr (), w1))"
proof (intro conjI allI impI)
  assume "fs w (PROC_FILE e) = None \<and> fs w (RR_PIPE e) = None"
  then show "cleanup e w = (Inr (), w)" by (simp add: cleanup_def path_exists_def)
next
  assume "fs w (PROC_FILE e) \<noteq> Some Dir \<and> fs w (RR_PIPE e) \<noteq> Some Dir"
  then show "\<exists>w1. cleanup e w = (Inr (), w1)" using cleanup_files[of w e] by blast
next
  fix w1 assume c: "cleanup e w = (Inr (), w1)"
  then show f: "fs w1 = (fs w)(PROC_FILE e := None, RR_PIPE e := None)"
    by (auto simp: cleanup_def path_exists_def unlink_def fun_eq_iff
             split: option.splits node.splits if_splits)
  then show "cleanup e w1 = (Inr (), w1)" by (simp add: cleanup_def path_exists_def)
qed

theorem cleanup_idempotent_witness:
  "cleanup (demo_env []) demo_world = (Inr (), demo_world)
   \<and> (\<exists>w1. cleanup (demo_env [])
              (demo_world\<lparr>fs := (fs demo_world)(''proc.out'' \<mapsto> File ''log'',
                                                  ''rrdump_proc.pipe'' \<mapsto> File [])\<rparr>) = (Inr (), w1)
           \<and> fs w1 ''proc.out'' = None \<and> fs w1 ''rrdump_proc.pipe'' = None
           \<and> fs w1 ''3_state.json'' = Some (File ''{}'')
           \<and> cleanup (demo_env []) w1 = (Inr (), w1))"
proof
  show "cleanup (demo_env []) demo_world = (Inr (), demo_world)"
    using cleanup_idempotent[of demo_world "demo_env []"]
    by (simp add: demo_env_def demo_world_def)
next
  let ?w = "demo_world\<lparr>fs := (fs demo_world)(''proc.out'' \<mapsto> File ''log'',
                                                ''rrdump_proc.pipe'' \<mapsto> File [])\<rparr>"
  have "fs ?w (PROC_FILE (demo_env [])) \<noteq> Some Dir \<and> fs ?w (RR_PIPE (demo_env [])) \<noteq> Some Dir"
    by (simp add: demo_env_def demo_world_def)
  with cleanup_idempotent[of ?w "demo_env []"]
  obtain w1 where c: "cleanup (demo_env []) ?w = (Inr (), w1)" by blast
  with cleanup_idempotent[of ?w "demo_env []"]
  have "fs w1 = (fs ?w)(PROC_FILE (demo_env []) := None, RR_PIPE (demo_env []) := None)"
    "cleanup (demo_env []) w1 = (Inr (), w1)" by blast+
  with c show "\<exists>w1. cleanup (demo_env []) ?w = (Inr (), w1)
           \<and> fs w1 ''proc.out'' = None \<and> fs w1 ''rrdump_proc.pipe'' = None
           \<and> fs w1 ''3_state.json'' = Some (File ''{}'')
           \<and> cleanup (demo_env []) w1 = (Inr (), w1)"
    by (simp add: demo_env_def demo_world_def)
qed

text \<open>
  C7. A \<open>DONT_INJECT\<close> message of the documented layout, once its pid is seen alive
  (after \<open>n\<close> failed polls) and with \<open>s\<close> the first subject of its event: the turn
  returns the subjects with the pid appended to \<open>other_procs\<close> of \<open>s\<close> and nothing else
  changed in \<open>s\<close> or in any other subject; the world changes by the \<open>n\<close> progress
  prints only, so no process is spawned and no file is written.
\<close>

theorem dont_inject_appends_pid:
  assumes "message = ''DONT_INJECT: EVENT: '' @ ev @ '' PID: '' @ p @ '' REC_PID: '' @ r @ [CHR 0x0A]"
    and "CHR '' '' \<notin> set ev" and "CHR '' '' \<notin> set p"
    and "alive_after e p = Some n"
    and "subjects = pre @ s # post" and "\<forall>x\<in>set pre. event x \<noteq> ev" and "event s = ev"
  shows "handle_message e message subjects w =
           Some (Inr (pre @ s\<lparr>other_procs := other_procs s @ [p]\<rparr> # post),
                 w\<lparr>out := out w @ replicate n (Print ''waiting...'')\<rparr>)"
proof -
  from dont_inject_parts[OF assms(2,3), of "r @ [CHR 0x0A]"] assms(1)
  obtain tl5 where "split_on CHR '' '' message = ''DONT_INJECT:'' # ''EVENT:'' # ev # ''PID:'' # p # tl5"
    by auto
  from handle_message_dont_inject[OF this assms(4-7)] show ?thesis .
qed

theorem dont_inject_appends_pid_witness:
  "alive_after (demo_env []) ''100'' = Some 1 \<and> event demo_subject = ''3''
   \<and> handle_message (demo_env []) (''DONT_INJECT: EVENT: 3 PID: 100 REC_PID: 200'' @ [CHR 0x0A])
        [demo_subject] demo_world
      = Some (Inr [demo_subject\<lparr>other_procs := [''100'']\<rparr>],
              demo_world\<lparr>out := [Print ''waiting...'']\<rparr>)"
  using dont_inject_appends_pid[where ev = "''3''" and p = "''100''" and r = "''200''" and n = 1
      and pre = "[]" and s = demo_subject and post = "[]" and e = "demo_env []"
      and w = demo_world and subjects = "[demo_subject]", OF refl]
  by (simp add: demo_env_def demo_subject_def demo_world_def)



text \<open>
  C9. When the bytes still to come from the pipe are not empty and hold no newline (a
  partial last line), \<open>get_message\<close> never returns: once the buffer is not empty and
  does not end in a newline, the read loop at end of input runs forever.
\<close>

theorem get_message_partial_line_never_returns:
  assumes "rrdump_pipe w = Some bs \<or> (rrdump_pipe w = None \<and> fs w pipe_name = Some (File bs))"
    and "bs \<noteq> []" and "CHR 0x0A \<notin> set bs"
  shows "get_message pipe_name w = None
       \<and> (\<forall>buf. buf \<noteq> [] \<and> last buf \<noteq> CHR 0x0A \<longrightarrow> read_loop buf [] = None)"
proof (intro conjI allI impI)
  show "get_message pipe_name w = None"
    using assms(2,3) by (simp add: get_message_char[OF assms(1)])
next
  fix buf :: string assume "buf \<noteq> [] \<and> last buf \<noteq> CHR 0x0A"
  then show "read_loop buf [] = None"
    using read_loop_Some_cases[of buf "[]"] by (cases "read_loop buf []") auto
qed

theorem get_message_partial_line_never_returns_witness:
  "''INJECT: EV'' \<noteq> [] \<and> CHR 0x0A \<notin> set ''INJECT: EV''
   \<and> get_message ''rrdump_proc.pipe'' (demo_world\<lparr>rrdump_pipe := Some ''INJECT: EV''\<rparr>) = None
   \<and> read_loop ''INJECT: EV'' [] = None"
  using get_message_partial_line_never_returns
    [of "demo_world\<lparr>rrdump_pipe := Some ''INJECT: EV''\<rparr>" "''INJECT: EV''" "''rrdump_proc.pipe''"]
  by simp

text \<open>
  C10. A message of the documented layout whose event is the event of no subject, met by
  the dispatch loop after \<open>k\<close> complete turns of a run whose steps up to the first
  read of the pipe succeeded, and whose pid is seen alive: the loop raises
  \<open>IndexError\<close>; \<open>main\<close> passes it on, the \<open>except Exception\<close> block runs cleanup,
  and the exit status is 1 (through \<open>sys.exit(1)\<close>, with the log and the pipe gone,
  when that cleanup succeeds).
\<close>

theorem unmatched_event_exits_1:
  assumes "message = verb @ '': EVENT: '' @ ev @ '' PID: '' @ p @ '' REC_PID: '' @ r @ [CHR 0x0A]"
    and "CHR '' '' \<notin> set verb" and "CHR '' '' \<notin> set ev" and "CHR '' '' \<notin> set p"
    and "alive_after e p = Some n"
    and "\<forall>x\<in>set subjects. event x \<noteq> ev"
    and "cleanup e w0 = (Inr (), w1)"
    and "path_exists (DEFAULT_CONFIG_PATH e @ testname) w1"
    and "get_configuration e (DEFAULT_CONFIG_PATH e @ testname @ ''/config.ini'') w1
           = (Inr (rr_dir, subjects0), w2)"
    and "execute_rr e rr_dir subjects0 w2 = (Inr (), w3)"
    and "get_message (RR_PIPE e) w3 = Some (Inr message0, w4)"
    and "loop_after e k message0 subjects0 w4 = Some (message, subjects, w)"
    and "w5 = w\<lparr>out := out w @ replicate n (Print ''waiting...'')\<rparr>"
  shows "message_loop e message subjects w = Some (Inl IndexError, w5)
       \<and> main e None testname w0 = Some (Inl IndexError, w5)
       \<and> run e None testname w0 = Some (on_exception e w5)
       \<and> exit_status_of (fst (on_exception e w5)) = 1
       \<and> (\<forall>w6. cleanup e w5 = (Inr (), w6)
            \<longrightarrow> on_exception e w5 = (Exited 1, w6)
                \<and> fs w6 (PROC_FILE e) = None \<and> fs w6 (RR_PIPE e) = None)"
proof -
  from message_parts_any_verb[OF assms(2,3,4), of "r @ [CHR 0x0A]"] assms(1)
  obtain tl5 where parts:
    "split_on CHR '' '' message = (verb @ '':'') # ''EVENT:'' # ev # ''PID:'' # p # tl5"
    by auto
  have ne: "message \<noteq> []" using assms(1) by simp
  have h: "handle_message e message subjects w = Some (Inl IndexError, w5)"
    using handle_message_unmatched[OF parts assms(5,6)] assms(13) by simp
  have l: "message_loop e message subjects w = Some (Inl IndexError, w5)"
    using ne h by (subst message_loop.simps) simp
  have "message_loop e message0 subjects0 w4 = Some (Inl IndexError, w5)"
    using loop_after_message_loop[OF assms(12)] l by simp
  then have "process_messages e subjects0 w3 = Some (Inl IndexError, w5)"
    using assms(11) by (simp add: process_messages_def)
  then have m: "main e None testname w0 = Some (Inl IndexError, w5)"
    by (simp add: main_dispatch[OF assms(7,8,9,10)])
  have r: "run e None testname w0 = Some (on_exception e w5)"
    using run_Exception[OF m] by simp
  have c: "on_exception e w5 = (Exited 1, w6) \<and> fs w6 (PROC_FILE e) = None \<and> fs w6 (RR_PIPE e) = None"
    if "cleanup e w5 = (Inr (), w6)" for w6
  proof -
    from that have "fs w6 = (fs w5)(PROC_FILE e := None, RR_PIPE e := None)"
      by (auto simp: cleanup_def path_exists_def unlink_def fun_eq_iff
             split: option.splits node.splits if_splits)
    with that show ?thesis by (simp add: on_exception_def)
  qed
  from l m r c on_exception_status[of e w5] show ?thesis by blast
qed

theorem unmatched_event_exits_1_witness:
  "map_option (\<lambda>(en, w). (en, fs w ''proc.out'', fs w ''rrdump_proc.pipe'', out w))
     (run (demo_env (''DONT_INJECT: EVENT: 3 PID: 100 REC_PID: 200'' @ [CHR 0x0A]
                     @ ''INJECT: EVENT: 9 PID: 101 REC_PID: 200'' @ [CHR 0x0A]))
        None ''demo'' demo_world)
   = Some (Exited 1, None, None,
           [Spawn [''rr'', ''replay'', ''-a'', ''-n'', ''200:3,201:7,'', ''trace/''],
            Print ''waiting...'', Print ''waiting...'',
            Unlink ''proc.out'', Unlink ''rrdump_proc.pipe''])"
proof -
  let ?M1 = "''DONT_INJECT: EVENT: 3 PID: 100 REC_PID: 200'' @ [CHR 0x0A]"
  let ?M9 = "''INJECT: EVENT: 9 PID: 101 REC_PID: 200'' @ [CHR 0x0A]"
  let ?bs = "?M1 @ ?M9"
  let ?E = "demo_env ?bs"
  let ?L1 = "(demo_launched ?bs)\<lparr>rrdump_pipe := Some ?M9\<rparr>"
  let ?L2 = "?L1\<lparr>out := out ?L1 @ replicate 1 (Print ''waiting...'')\<rparr>"
  let ?L3 = "?L2\<lparr>rrdump_pipe := Some []\<rparr>"
  let ?s = "demo_subject\<lparr>other_procs := other_procs demo_subject @ [''100'']\<rparr>"
  let ?L5 = "?L3\<lparr>out := out ?L3 @ replicate 1 (Print ''waiting...'')\<rparr>"
  have p: "path_exists (DEFAULT_CONFIG_PATH ?E @ ''demo'') demo_world"
    by (simp add: path_exists_def demo_env_def demo_world_def)
  have g: "get_configuration ?E (DEFAULT_CONFIG_PATH ?E @ ''demo'' @ ''/config.ini'')
             demo_world = (Inr (''trace/'', [demo_subject, demo_subject7]), demo_world)"
    using demo_get_configuration[of ?bs "[]"] by (simp add: demo_env_def demo_world_def)
  have src: "rrdump_pipe (demo_launched ?bs) = Some ?bs \<or>
        (rrdump_pipe (demo_launched ?bs) = None \<and>
         fs (demo_launched ?bs) (RR_PIPE ?E) = Some (File ?bs))"
    by (simp add: demo_launched_def demo_world_def demo_env_def)
  have g1: "get_message (RR_PIPE ?E) (demo_launched ?bs) = Some (Inr ?M1, ?L1)"
    using get_message_char[OF src] by simp
  have parts: "split_on CHR '' '' ?M1
      = ''DONT_INJECT:'' # ''EVENT:'' # ''3'' # ''PID:'' # ''100'' # [''REC_PID:'', ''200'' @ [CHR 0x0A]]"
    by simp
  have h: "handle_message ?E ?M1 [demo_subject, demo_subject7] ?L1
      = Some (Inr ([] @ ?s # [demo_subject7]), ?L2)"
    by (rule handle_message_dont_inject[OF parts])
       (simp_all add: demo_env_def demo_subject_def)
  have src2: "rrdump_pipe ?L2 = Some ?M9 \<or>
        (rrdump_pipe ?L2 = None \<and> fs ?L2 (RR_PIPE ?E) = Some (File ?M9))"
    by simp
  have g2: "get_message (RR_PIPE ?E) ?L2 = Some (Inr ?M9, ?L3)"
    using get_message_char[OF src2] by simp
  have la: "loop_after ?E 1 ?M1 [demo_subject, demo_subject7] ?L1
      = Some (?M9, [?s, demo_subject7], ?L3)"
  proof -
    have "loop_after ?E (Suc 0) ?M1 [demo_subject, demo_subject7] ?L1
      = Some (?M9, [?s, demo_subject7], ?L3)"
      by (simp only: loop_after.simps h g2 option.case prod.case sum.case append_Nil) simp
    then show ?thesis by simp
  qed
  have msg: "?M9 = ''INJECT'' @ '': EVENT: '' @ ''9'' @ '' PID: '' @ ''101'' @ '' REC_PID: '' @ ''200'' @ [CHR 0x0A]"
    by simp
  have sp: "CHR '' '' \<notin> set ''INJECT''" "CHR '' '' \<notin> set ''9''" "CHR '' '' \<notin> set ''101''"
    by simp_all
  have al: "alive_after ?E ''101'' = Some 1" by (simp add: demo_env_def)
  have un: "\<forall>x\<in>set [?s, demo_subject7]. event x \<noteq> ''9''"
    by (simp add: demo_subject_def demo_subject7_def)
  note t = unmatched_event_exits_1[OF msg sp al un demo_cleanup p g demo_execute_rr g1 la refl]
  then have r: "run ?E None ''demo'' demo_world = Some (on_exception ?E ?L5)" by blast
  have "on_exception ?E ?L5 = (Exited 1, ?L5\<lparr>fs := (fs ?L5)(''proc.out'' := None, ''rrdump_proc.pipe'' := None),
           out := out ?L5 @ [Unlink ''proc.out'', Unlink ''rrdump_proc.pipe'']\<rparr>)"
    by (simp add: on_exception_def cleanup_def path_exists_def unlink_def demo_launched_def
        demo_world_def demo_env_def)
  with r show ?thesis by (simp add: demo_launched_def demo_world_def)
qed

end
